theory Spec2Isabelle
  imports Complex_Main "HOL-Library.Sublist" "HOL-Library.Code_Target_Nat"
begin

section \<open>JavaScript values as the service uses them\<close>

text \<open>
  Strings are byte strings: an ASCII character is one \<^typ>\<open>char\<close>, any other character is
  its UTF-8 bytes. The numbers of the options and of the totals are the integer-valued
  ones (\<^typ>\<open>int\<close>); a sort key is any finite number, given by its decimal. An optional property
  (\<open>keyword?: string\<close>) is an \<^typ>\<open>'a option\<close>, \<open>None\<close> standing for \<open>undefined\<close>.
\<close>

text \<open>
  Truthiness, as \<open>if (x)\<close>, \<open>x && y\<close> and \<open>x || y\<close> read a value. A truthy optional value
  is present, so \<open>the x\<close> is read only where \<open>x\<close> is truthy.
\<close>

fun truthy_str :: "string option \<Rightarrow> bool" where
  "truthy_str None = False"
| "truthy_str (Some s) = (s \<noteq> [])"

fun truthy_num :: "int option \<Rightarrow> bool" where
  "truthy_num None = False"
| "truthy_num (Some n) = (n \<noteq> 0)"

text \<open>\<open>xs && xs.length\<close> for an optional array.\<close>

fun has_items :: "'a list option \<Rightarrow> bool" where
  "has_items None = False"
| "has_items (Some xs) = (xs \<noteq> [])"

text \<open>\<open>xs || []\<close> for an optional array.\<close>

fun or_empty :: "'a list option \<Rightarrow> 'a list" where
  "or_empty None = []"
| "or_empty (Some xs) = xs"

text \<open>\<open>xs[i]\<close> on an array: \<open>undefined\<close> out of range.\<close>

definition index_opt :: "'a list \<Rightarrow> nat \<Rightarrow> 'a option" where
  "index_opt xs i = (if i < length xs then Some (xs ! i) else None)"

text \<open>\<open>xs.join(sep)\<close>.\<close>

fun join :: "string \<Rightarrow> string list \<Rightarrow> string" where
  "join sep [] = []"
| "join sep [x] = x"
| "join sep (x # y # ys) = x @ sep @ join sep (y # ys)"

text \<open>\<open>s.toLowerCase()\<close>, on the ASCII letters; the bytes of other characters stay.\<close>

definition lower_char :: "char \<Rightarrow> char" where
  "lower_char c =
     (let n = (of_char c :: nat) in if 65 \<le> n \<and> n \<le> 90 then char_of (n + 32) else c)"

definition toLowerCase :: "string \<Rightarrow> string" where
  "toLowerCase s = map lower_char s"

text \<open>
  \<open>/pat/i.test(s)\<close> for a pattern of plain ASCII letters: some position of \<open>s\<close> starts with
  the pattern, letter case ignored.
\<close>

fun test_i :: "string \<Rightarrow> string \<Rightarrow> bool" where
  "test_i pat [] = (pat = [])"
| "test_i pat (c # cs) =
     (prefix (toLowerCase pat) (toLowerCase (c # cs)) \<or> test_i pat cs)"

text \<open>
  \<open>key.split('__')\<close>: the parts between the leftmost, non-overlapping occurrences of the
  separator; \<open>cur\<close> holds the current part, reversed.
\<close>

fun split_dunder :: "string \<Rightarrow> string \<Rightarrow> string list" where
  "split_dunder cur [] = [rev cur]"
| "split_dunder cur [c] = [rev (c # cur)]"
| "split_dunder cur (c # d # cs) =
     (if c = CHR ''_'' \<and> d = CHR ''_'' then rev cur # split_dunder [] cs
      else split_dunder (c # cur) (d # cs))"

definition split_key :: "string \<Rightarrow> string list" where
  "split_key key = split_dunder [] key"

text \<open>Whether the separator \<open>__\<close> occurs in a string.\<close>

fun includes_dunder :: "string \<Rightarrow> bool" where
  "includes_dunder (c # d # cs) = ((c = CHR ''_'' \<and> d = CHR ''_'') \<or> includes_dunder (d # cs))"
| "includes_dunder cs = False"

section \<open>Errors\<close>

text \<open>
  What the service throws: a \<open>KobpError\<close> made by \<open>fromUserInput\<close> (a client error code and
  a message) or by \<open>fromServer\<close> (a server error code, a message and the data), or any other
  \<open>Error\<close>, which has a message and, when the engine's client raised it, a \<open>meta\<close> with the
  response body. A \<open>SyntaxError\<close> of \<open>JSON.parse\<close> and a \<open>TypeError\<close> of a property read
  on \<open>undefined\<close> are such errors without \<open>meta\<close>; their message stands for the runtime's.
\<close>

datatype client_error_code = BadRequest | NotFound

datatype server_error_code = BadGateway

record es_cause =
  cause_type :: "string option"
  reason :: "string option"

record es_error_node =
  root_cause :: "es_cause list option"
  caused_by :: "es_cause option"

text \<open>\<open>error.meta\<close>: the field read of it is \<open>meta.body.error\<close>.\<close>

record es_meta =
  body_error :: "es_error_node option"

datatype js_error =
    FromUserInput client_error_code string
  | FromServer server_error_code string "string option"
  | Error string "es_meta option"

definition syntax_error :: js_error where
  "syntax_error = Error ''SyntaxError'' None"

definition type_error :: js_error where
  "type_error = Error ''TypeError'' None"

fun message :: "js_error \<Rightarrow> string" where
  "message (FromUserInput c m) = m"
| "message (FromServer c m d) = m"
| "message (Error m mt) = m"

fun meta :: "js_error \<Rightarrow> es_meta option" where
  "meta (Error m mt) = mt"
| "meta e = None"

text \<open>\<open>[o.type, o.reason].filter(Boolean).join(': ')\<close>\<close>

definition typeWithReason :: "es_cause \<Rightarrow> string" where
  "typeWithReason o' =
     join '': '' (map the (filter truthy_str [cause_type o', reason o']))"

definition normalizeESErrorMessage :: "js_error \<Rightarrow> string" where
  "normalizeESErrorMessage error =
     (case (case meta error of None \<Rightarrow> None | Some mt \<Rightarrow> body_error mt) of
        None \<Rightarrow> message error
      | Some esErrorNode \<Rightarrow>
          (case root_cause esErrorNode of
             Some rc \<Rightarrow> join '', '' (map typeWithReason rc)
           | None \<Rightarrow>
               (case caused_by esErrorNode of
                  None \<Rightarrow> message error
                | Some cb \<Rightarrow>
                    if typeWithReason cb \<noteq> [] then typeWithReason cb else message error)))"

text \<open>
  The console: \<open>console.error('ES ERR', JSON.stringify(error.meta.body))\<close> and
  \<open>console.log('DOMAIN', domain)\<close> are the lines the term tracker writes.
\<close>

datatype console_line = ES_ERR es_meta | DOMAIN string

text \<open>What \<open>_logElasticSearchError\<close> and \<open>_throwElasticSearchError\<close> write.\<close>

definition logged :: "js_error \<Rightarrow> console_line list" where
  "logged error = (case meta error of None \<Rightarrow> [] | Some mt \<Rightarrow> [ES_ERR mt])"

text \<open>What \<open>_throwElasticSearchError\<close> throws.\<close>

definition throwElasticSearchError :: "js_error \<Rightarrow> js_error" where
  "throwElasticSearchError error =
     FromServer BadGateway ''ElasticSearch encountered an error''
       (Some (normalizeESErrorMessage error))"

section \<open>The cursor codec: base64 and JSON, as the runtime provides them\<close>

subsection \<open>Base64 (\<open>Buffer.from(s, 'base64')\<close> and \<open>buf.toString('base64')\<close>)\<close>

definition b64_char :: "nat \<Rightarrow> char" where
  "b64_char n =
     (if n < 26 then char_of (n + 65)
      else if n < 52 then char_of (n + 71)
      else if n < 62 then char_of (n - 4)
      else if n = 62 then CHR ''+'' else CHR ''/'')"

text \<open>
  The decoder also reads the URL-safe letters \<open>-\<close> and \<open>_\<close>, as Node's does.
\<close>

definition b64_value :: "char \<Rightarrow> nat option" where
  "b64_value c =
     (let n = (of_char c :: nat) in
      if 65 \<le> n \<and> n \<le> 90 then Some (n - 65)
      else if 97 \<le> n \<and> n \<le> 122 then Some (n - 71)
      else if 48 \<le> n \<and> n \<le> 57 then Some (n + 4)
      else if c = CHR ''+'' \<or> c = CHR ''-'' then Some 62
      else if c = CHR ''/'' \<or> c = CHR ''_'' then Some 63
      else None)"

fun b64_encode :: "string \<Rightarrow> string" where
  "b64_encode [] = []"
| "b64_encode [a] =
     (let x = (of_char a :: nat) in
      [b64_char (x div 4), b64_char ((x mod 4) * 16), CHR ''='', CHR ''=''])"
| "b64_encode [a, b] =
     (let x = (of_char a :: nat); y = (of_char b :: nat) in
      [b64_char (x div 4), b64_char ((x mod 4) * 16 + y div 16),
       b64_char ((y mod 16) * 4), CHR ''=''])"
| "b64_encode (a # b # c # rest) =
     (let x = (of_char a :: nat); y = (of_char b :: nat); z = (of_char c :: nat) in
      [b64_char (x div 4), b64_char ((x mod 4) * 16 + y div 16),
       b64_char ((y mod 16) * 4 + z div 64), b64_char (z mod 64)] @ b64_encode rest)"

text \<open>
  The decoder reads a string by its UTF-16 code units and takes of each the low byte.
  With strings as UTF-8 bytes: an ASCII byte is its own code unit; a well-formed sequence
  of two or three bytes is one code unit, whose low byte is the low two bits of the
  second-last byte and the low six bits of the last; a well-formed sequence of four
  bytes is a surrogate pair. A byte that starts no well-formed sequence is kept (it is
  no base64 letter).
\<close>

definition is_cont :: "char \<Rightarrow> bool" where
  "is_cont c = (let n = (of_char c :: nat) in 128 \<le> n \<and> n < 192)"

definition byte :: "char \<Rightarrow> nat" where
  "byte c = of_char c"

fun low_bytes :: "string \<Rightarrow> string" where
  "low_bytes [] = []"
| "low_bytes (b # bs) =
     (let n = byte b in
      if n < 128 then b # low_bytes bs
      else if 194 \<le> n \<and> n < 224 then
        (case bs of
           c # r \<Rightarrow>
             if is_cont c then char_of ((n mod 4) * 64 + byte c mod 64) # low_bytes r
             else b # low_bytes bs
         | [] \<Rightarrow> b # low_bytes bs)
      else if 224 \<le> n \<and> n < 240 then
        (case bs of
           c # d # r \<Rightarrow>
             if is_cont c \<and> is_cont d
                \<and> 2048 \<le> (n mod 16) * 4096 + (byte c mod 64) * 64 + byte d mod 64
             then char_of ((byte c mod 4) * 64 + byte d mod 64) # low_bytes r
             else b # low_bytes bs
         | _ \<Rightarrow> b # low_bytes bs)
      else if 240 \<le> n \<and> n < 245 then
        (case bs of
           c # d # e # r \<Rightarrow>
             (let cp = (n mod 8) * 262144 + (byte c mod 64) * 4096
                       + (byte d mod 64) * 64 + byte e mod 64
              in if is_cont c \<and> is_cont d \<and> is_cont e \<and> 65536 \<le> cp \<and> cp < 1114112
                 then char_of ((cp - 65536) div 1024) # char_of ((cp - 65536) mod 1024)
                      # low_bytes r
                 else b # low_bytes bs)
         | _ \<Rightarrow> b # low_bytes bs)
      else b # low_bytes bs)"

text \<open>
  Decoding never fails: a character outside the alphabet is skipped and the first \<open>=\<close>
  ends the input. Four letters give three bytes; a last group of three or two letters
  gives two bytes or one, and a single left-over letter gives none.
\<close>

fun b64_sextets :: "string \<Rightarrow> nat list" where
  "b64_sextets [] = []"
| "b64_sextets (c # cs) =
     (if c = CHR ''='' then []
      else case b64_value c of None \<Rightarrow> b64_sextets cs | Some v \<Rightarrow> v # b64_sextets cs)"

fun b64_bytes :: "nat list \<Rightarrow> string" where
  "b64_bytes (p # q # r # s # rest) =
     [char_of (p * 4 + q div 16), char_of ((q mod 16) * 16 + r div 4),
      char_of ((r mod 4) * 64 + s)] @ b64_bytes rest"
| "b64_bytes [p, q, r] = [char_of (p * 4 + q div 16), char_of ((q mod 16) * 16 + r div 4)]"
| "b64_bytes [p, q] = [char_of (p * 4 + q div 16)]"
| "b64_bytes ps = []"

definition b64_decode :: "string \<Rightarrow> string" where
  "b64_decode s = b64_bytes (b64_sextets (low_bytes s))"

subsection \<open>JSON values\<close>

text \<open>
  A number is kept as the exact value of its literal. An object is the list of its members
  as written.
\<close>

datatype json =
    JNull
  | JBool bool
  | JNum rat
  | JStr string
  | JArr "json list"
  | JObj "(string \<times> json) list"

text \<open>
  A sort key of a hit: \<open>null\<close>, a boolean, a number or a string. A number is finite and
  is given as a decimal: \<open>SNum m e\<close> is the number \<open>m\<cdot>10\<^sup>e\<close>, the decimal of the shortest
  text that reads back as it (zero is one number).
\<close>

datatype sort_value = SNull | SBool bool | SNum int int | SStr string

fun json_of_sort_value :: "sort_value \<Rightarrow> json" where
  "json_of_sort_value SNull = JNull"
| "json_of_sort_value (SBool b) = JBool b"
| "json_of_sort_value (SNum m e) = JNum (of_int m * 10 powi e)"
| "json_of_sort_value (SStr s) = JStr s"

subsection \<open>\<open>JSON.stringify\<close> of a sort-key tuple\<close>

definition digit_char :: "nat \<Rightarrow> char" where
  "digit_char d = char_of (48 + d)"

fun show_nat :: "nat \<Rightarrow> string" where
  "show_nat n = (if n < 10 then [digit_char n] else show_nat (n div 10) @ [digit_char (n mod 10)])"

declare show_nat.simps [simp del]

text \<open>
  \<open>Number::toString\<close> in radix 10. The digits \<open>s\<close> of a number have no trailing zero;
  with \<open>k\<close> digits and \<open>n = e + k\<close> the number \<open>s\<cdot>10\<^sup>e\<close> is written in positional
  notation when \<open>-5 \<le> n \<le> 21\<close> and with an exponent otherwise.
\<close>

function strip_zeros :: "nat \<Rightarrow> int \<Rightarrow> nat \<times> int" where
  "strip_zeros s e =
     (if s \<noteq> 0 \<and> s mod 10 = 0 then strip_zeros (s div 10) (e + 1) else (s, e))"
  by pat_completeness auto
termination
  by (relation "measure fst") auto

declare strip_zeros.simps [simp del]

definition decimal_text :: "nat \<Rightarrow> int \<Rightarrow> string" where
  "decimal_text s e =
     (let ds = show_nat s; k = int (length ds); n = e + k in
      if - 5 \<le> n \<and> n \<le> 21 then
        (if k \<le> n then ds @ replicate (nat (n - k)) CHR ''0''
         else if 0 < n then take (nat n) ds @ ''.'' @ drop (nat n) ds
         else ''0.'' @ replicate (nat (- n)) CHR ''0'' @ ds)
      else
        (if k = 1 then ds else hd ds # ''.'' @ tl ds)
        @ ''e'' @ (if n < 0 then ''-'' else ''+'') @ show_nat (nat \<bar>n - 1\<bar>))"

definition number_text :: "int \<Rightarrow> int \<Rightarrow> string" where
  "number_text m e =
     (if m = 0 then ''0''
      else (if m < 0 then ''-'' else [])
           @ (case strip_zeros (nat \<bar>m\<bar>) e of (s, e') \<Rightarrow> decimal_text s e'))"

definition hex_char :: "nat \<Rightarrow> char" where
  "hex_char d = (if d < 10 then char_of (48 + d) else char_of (87 + d))"

text \<open>
  One character of a string literal: the quote, the backslash and the control characters
  are escaped, every other byte is written as it is.
\<close>

definition quote_char :: "char \<Rightarrow> string" where
  "quote_char c =
     (let n = (of_char c :: nat) in
      if c = CHR 0x22 then [CHR 0x5C, CHR 0x22]
      else if c = CHR 0x5C then [CHR 0x5C, CHR 0x5C]
      else if n = 8 then [CHR 0x5C, CHR ''b'']
      else if n = 12 then [CHR 0x5C, CHR ''f'']
      else if n = 10 then [CHR 0x5C, CHR ''n'']
      else if n = 13 then [CHR 0x5C, CHR ''r'']
      else if n = 9 then [CHR 0x5C, CHR ''t'']
      else if n < 32 then [CHR 0x5C, CHR ''u'', CHR ''0'', CHR ''0'', hex_char (n div 16), hex_char (n mod 16)]
      else [c])"

definition quote :: "string \<Rightarrow> string" where
  "quote s = CHR 0x22 # concat (map quote_char s) @ [CHR 0x22]"

fun stringify_sort_value :: "sort_value \<Rightarrow> string" where
  "stringify_sort_value SNull = ''null''"
| "stringify_sort_value (SBool b) = (if b then ''true'' else ''false'')"
| "stringify_sort_value (SNum m e) = number_text m e"
| "stringify_sort_value (SStr s) = quote s"

definition stringify_sort :: "sort_value list \<Rightarrow> string" where
  "stringify_sort t = ''['' @ join '','' (map stringify_sort_value t) @ '']''"

subsection \<open>\<open>JSON.parse\<close>\<close>

datatype token =
    LBrack | RBrack | LBrace | RBrace | Colon | Comma
  | TStr string | TNum rat | TTrue | TFalse | TNull

definition is_digit :: "char \<Rightarrow> bool" where
  "is_digit c = (let n = (of_char c :: nat) in 48 \<le> n \<and> n \<le> 57)"

definition is_ws :: "char \<Rightarrow> bool" where
  "is_ws c = (let n = (of_char c :: nat) in n = 32 \<or> n = 9 \<or> n = 10 \<or> n = 13)"

definition hex_value :: "char \<Rightarrow> nat option" where
  "hex_value c =
     (let n = (of_char c :: nat) in
      if 48 \<le> n \<and> n \<le> 57 then Some (n - 48)
      else if 97 \<le> n \<and> n \<le> 102 then Some (n - 87)
      else if 65 \<le> n \<and> n \<le> 70 then Some (n - 55)
      else None)"

definition hex4 :: "char \<Rightarrow> char \<Rightarrow> char \<Rightarrow> char \<Rightarrow> nat option" where
  "hex4 a b c d =
     (case (hex_value a, hex_value b, hex_value c, hex_value d) of
        (Some p, Some q, Some r, Some s) \<Rightarrow> Some (((p * 16 + q) * 16 + r) * 16 + s)
      | _ \<Rightarrow> None)"

text \<open>
  The bytes of the code unit a \<open>\\u\<close> escape names. (A surrogate pair written as two
  escapes is kept as two three-byte groups.)
\<close>

definition utf8_unit :: "nat \<Rightarrow> string" where
  "utf8_unit n =
     (if n < 128 then [char_of n]
      else if n < 2048 then [char_of (192 + n div 64), char_of (128 + n mod 64)]
      else [char_of (224 + n div 4096), char_of (128 + (n div 64) mod 64), char_of (128 + n mod 64)])"

definition unescape :: "char \<Rightarrow> char option" where
  "unescape e =
     (if e = CHR 0x22 then Some (CHR 0x22)
      else if e = CHR 0x5C then Some (CHR 0x5C)
      else if e = CHR ''/'' then Some (CHR ''/'')
      else if e = CHR ''b'' then Some (char_of (8 :: nat))
      else if e = CHR ''f'' then Some (char_of (12 :: nat))
      else if e = CHR ''n'' then Some (char_of (10 :: nat))
      else if e = CHR ''r'' then Some (char_of (13 :: nat))
      else if e = CHR ''t'' then Some (char_of (9 :: nat))
      else None)"

text \<open>
  The rest of a string literal after its opening quote: the string it denotes and the
  input after the closing quote. \<open>acc\<close> holds the bytes read so far, reversed.
\<close>

fun lex_string :: "string \<Rightarrow> string \<Rightarrow> (string \<times> string) option" where
  "lex_string acc [] = None"
| "lex_string acc (c # cs) =
     (if c = CHR 0x22 then Some (rev acc, cs)
      else if c = CHR 0x5C then
        (case cs of
           [] \<Rightarrow> None
         | e # r \<Rightarrow>
             if e = CHR ''u'' then
               (case r of
                  h1 # h2 # h3 # h4 # r' \<Rightarrow>
                    (case hex4 h1 h2 h3 h4 of
                       None \<Rightarrow> None
                     | Some n \<Rightarrow> lex_string (rev (utf8_unit n) @ acc) r')
                | _ \<Rightarrow> None)
             else
               (case unescape e of
                  None \<Rightarrow> None
                | Some x \<Rightarrow> lex_string (x # acc) r))
      else if (of_char c :: nat) < 32 then None
      else lex_string (c # acc) cs)"

text \<open>The value of a run of decimal digits.\<close>

definition digits_value :: "string \<Rightarrow> nat" where
  "digits_value ds = foldl (\<lambda>v c. 10 * v + (of_char c - 48)) 0 ds"

text \<open>
  A number literal at the head of the input: an optional minus, an integer part with no
  leading zero, an optional fraction, an optional exponent. The result is its value and
  the input after it.
\<close>

definition lex_fraction :: "string \<Rightarrow> (rat \<times> string) option" where
  "lex_fraction s =
     (case s of
        c # r \<Rightarrow>
          if c = CHR ''.'' then
            (let fs = takeWhile is_digit r in
             if fs = [] then None
             else Some (of_nat (digits_value fs) / 10 ^ length fs, dropWhile is_digit r))
          else Some (0, s)
      | [] \<Rightarrow> Some (0, s))"

definition lex_exponent :: "string \<Rightarrow> (int \<times> string) option" where
  "lex_exponent s =
     (case s of
        c # r \<Rightarrow>
          if c = CHR ''e'' \<or> c = CHR ''E'' then
            (let neg = (case r of d # _ \<Rightarrow> d = CHR ''-'' | [] \<Rightarrow> False);
                 r' = (case r of d # r2 \<Rightarrow> if d = CHR ''-'' \<or> d = CHR ''+'' then r2 else r | [] \<Rightarrow> r);
                 es = takeWhile is_digit r' in
             if es = [] then None
             else Some ((if neg then - int (digits_value es) else int (digits_value es)),
                        dropWhile is_digit r'))
          else Some (0, s)
      | [] \<Rightarrow> Some (0, s))"

definition lex_number :: "string \<Rightarrow> (rat \<times> string) option" where
  "lex_number s =
     (let neg = (case s of c # _ \<Rightarrow> c = CHR ''-'' | [] \<Rightarrow> False);
          s1 = (if neg then tl s else s);
          ds = takeWhile is_digit s1
      in if ds = [] \<or> (1 < length ds \<and> hd ds = CHR ''0'') then None
         else
           (case lex_fraction (dropWhile is_digit s1) of
              None \<Rightarrow> None
            | Some (f, s2) \<Rightarrow>
                (case lex_exponent s2 of
                   None \<Rightarrow> None
                 | Some (e, s3) \<Rightarrow>
                     Some ((if neg then - 1 else 1) * (of_nat (digits_value ds) + f) * (10 powi e), s3))))"

lemma lex_string_shorter: "lex_string acc s = Some (x, rest) \<Longrightarrow> length rest < length s"
proof (induction acc s arbitrary: x rest rule: lex_string.induct)
  case (1 acc)
  then show ?case by simp
next
  case (2 acc c cs)
  then show ?case
    by (fastforce split: if_splits list.splits option.splits)
qed

lemma lex_fraction_shorter: "lex_fraction s = Some (f, rest) \<Longrightarrow> length rest \<le> length s"
  by (auto simp: lex_fraction_def Let_def split: list.splits if_splits
      intro: le_SucI length_dropWhile_le)

lemma lex_exponent_shorter: "lex_exponent s = Some (e, rest) \<Longrightarrow> length rest \<le> length s"
  by (auto simp: lex_exponent_def Let_def split: list.splits if_splits
      intro: le_SucI length_dropWhile_le)

lemma dropWhile_shorter: "takeWhile P s \<noteq> [] \<Longrightarrow> length (dropWhile P s) < length s"
  by (cases s) (auto simp: less_Suc_eq_le length_dropWhile_le split: if_splits)

lemma lex_number_shorter:
  assumes "lex_number s = Some (q, rest)"
  shows "length rest < length s"
proof -
  define s1 where "s1 = (if (case s of c # _ \<Rightarrow> c = CHR ''-'' | [] \<Rightarrow> False) then tl s else s)"
  from assms obtain f s2 e where
    ds: "takeWhile is_digit s1 \<noteq> []" and
    fr: "lex_fraction (dropWhile is_digit s1) = Some (f, s2)" and
    ex: "lex_exponent s2 = Some (e, rest)"
    by (auto simp: lex_number_def Let_def s1_def split: if_splits option.splits)
  have "length rest \<le> length s2" using ex by (rule lex_exponent_shorter)
  also have "\<dots> \<le> length (dropWhile is_digit s1)" using fr by (rule lex_fraction_shorter)
  also have "\<dots> < length s1" using ds by (rule dropWhile_shorter)
  also have "\<dots> \<le> length s" by (simp add: s1_def)
  finally show ?thesis .
qed

text \<open>The one-character tokens.\<close>

definition punct :: "char \<Rightarrow> token option" where
  "punct c =
     (if c = CHR ''['' then Some LBrack
      else if c = CHR '']'' then Some RBrack
      else if c = CHR ''{'' then Some LBrace
      else if c = CHR ''}'' then Some RBrace
      else if c = CHR '':'' then Some Colon
      else if c = CHR '','' then Some Comma
      else None)"

function tokenize :: "string \<Rightarrow> token list option" where
  "tokenize [] = Some []"
| "tokenize (c # cs) =
     (if is_ws c then tokenize cs
      else if punct c \<noteq> None then map_option (Cons (the (punct c))) (tokenize cs)
      else if c = CHR 0x22 then
        (case lex_string [] cs of
           None \<Rightarrow> None
         | Some (s, rest) \<Rightarrow> map_option (Cons (TStr s)) (tokenize rest))
      else if c = CHR ''-'' \<or> is_digit c then
        (case lex_number (c # cs) of
           None \<Rightarrow> None
         | Some (q, rest) \<Rightarrow> map_option (Cons (TNum q)) (tokenize rest))
      else if prefix ''true'' (c # cs) then map_option (Cons TTrue) (tokenize (drop 3 cs))
      else if prefix ''false'' (c # cs) then map_option (Cons TFalse) (tokenize (drop 4 cs))
      else if prefix ''null'' (c # cs) then map_option (Cons TNull) (tokenize (drop 3 cs))
      else None)"
  by pat_completeness auto
termination
proof (relation "measure length")
  show "wf (measure length)" by simp
next
  fix c cs x2 x y
  assume "lex_string [] cs = Some x2" "(x, y) = x2"
  then have "lex_string [] cs = Some (x, y)" by simp
  then have "length y < length cs" by (rule lex_string_shorter)
  then show "(y, c # cs) \<in> measure length" by simp
next
  fix c cs x2 x y
  assume "lex_number (c # cs) = Some x2" "(x, y) = x2"
  then have "lex_number (c # cs) = Some (x, y)" by simp
  then have "length y < length (c # cs)" by (rule lex_number_shorter)
  then show "(y, c # cs) \<in> measure length" by simp
qed auto

text \<open>
  The parser reads the tokens with a stack of the arrays and objects that are open: an
  array with its elements so far, an object with its members so far and the key that
  waits for its value (both lists reversed).
\<close>

datatype frame = In_array "json list" | In_object "(string \<times> json) list" "string option"

datatype expect =
    Value | Value_or_end | Key_or_end | Key | Colon_next | Comma_or_end | Finished json

type_synonym parser_state = "expect \<times> frame list"

fun push_value :: "json \<Rightarrow> frame list \<Rightarrow> parser_state option" where
  "push_value v [] = Some (Finished v, [])"
| "push_value v (In_array es # st) = Some (Comma_or_end, In_array (v # es) # st)"
| "push_value v (In_object ms (Some k) # st) = Some (Comma_or_end, In_object ((k, v) # ms) None # st)"
| "push_value v (In_object ms None # st) = None"

fun close_array :: "frame list \<Rightarrow> parser_state option" where
  "close_array (In_array es # st) = push_value (JArr (rev es)) st"
| "close_array st = None"

fun close_object :: "frame list \<Rightarrow> parser_state option" where
  "close_object (In_object ms None # st) = push_value (JObj (rev ms)) st"
| "close_object st = None"

fun set_key :: "string \<Rightarrow> frame list \<Rightarrow> parser_state option" where
  "set_key k (In_object ms None # st) = Some (Colon_next, In_object ms (Some k) # st)"
| "set_key k st = None"

fun start_value :: "token \<Rightarrow> frame list \<Rightarrow> parser_state option" where
  "start_value LBrack st = Some (Value_or_end, In_array [] # st)"
| "start_value LBrace st = Some (Key_or_end, In_object [] None # st)"
| "start_value (TStr s) st = push_value (JStr s) st"
| "start_value (TNum q) st = push_value (JNum q) st"
| "start_value TTrue st = push_value (JBool True) st"
| "start_value TFalse st = push_value (JBool False) st"
| "start_value TNull st = push_value JNull st"
| "start_value t st = None"

fun after_comma :: "frame list \<Rightarrow> parser_state option" where
  "after_comma (In_array es # st) = Some (Value, In_array es # st)"
| "after_comma (In_object ms None # st) = Some (Key, In_object ms None # st)"
| "after_comma st = None"

fun step :: "parser_state \<Rightarrow> token \<Rightarrow> parser_state option" where
  "step (Value, st) t = start_value t st"
| "step (Value_or_end, st) t = (if t = RBrack then close_array st else start_value t st)"
| "step (Key_or_end, st) t =
     (case t of TStr k \<Rightarrow> set_key k st | RBrace \<Rightarrow> close_object st | _ \<Rightarrow> None)"
| "step (Key, st) t = (case t of TStr k \<Rightarrow> set_key k st | _ \<Rightarrow> None)"
| "step (Colon_next, st) t = (if t = Colon then Some (Value, st) else None)"
| "step (Comma_or_end, st) t =
     (case t of
        Comma \<Rightarrow> after_comma st
      | RBrack \<Rightarrow> close_array st
      | RBrace \<Rightarrow> close_object st
      | _ \<Rightarrow> None)"
| "step (Finished v, st) t = None"

fun run :: "parser_state \<Rightarrow> token list \<Rightarrow> parser_state option" where
  "run s [] = Some s"
| "run s (t # ts) = (case step s t of None \<Rightarrow> None | Some s' \<Rightarrow> run s' ts)"

definition json_parse :: "string \<Rightarrow> json option" where
  "json_parse text =
     (case tokenize text of
        None \<Rightarrow> None
      | Some ts \<Rightarrow>
          (case run (Value, []) ts of
             Some (Finished v, st) \<Rightarrow> Some v
           | _ \<Rightarrow> None))"

subsection \<open>The cursor\<close>

text \<open>
  \<open>Buffer.from(JSON.stringify(item.sort), 'utf8').toString('base64')\<close> and
  \<open>JSON.parse(Buffer.from(token, 'base64').toString('utf8'))\<close>. With strings as UTF-8 bytes
  the two \<open>utf8\<close> conversions are the identity (bytes that are not UTF-8, which Node
  replaces by U+FFFD, are kept; \<open>JSON.parse\<close> accepts the same texts either way).
\<close>

definition cursor_encode :: "sort_value list \<Rightarrow> string" where
  "cursor_encode t = b64_encode (stringify_sort t)"

definition cursor_decode :: "string \<Rightarrow> json option" where
  "cursor_decode token = json_parse (b64_decode token)"

text \<open>
  The tokens of a stringified tuple: the token of a sort key, and those after the first
  element, each element behind its comma, up to the closing bracket.
\<close>

fun token_of_sort_value :: "sort_value \<Rightarrow> token" where
  "token_of_sort_value SNull = TNull"
| "token_of_sort_value (SBool b) = (if b then TTrue else TFalse)"
| "token_of_sort_value (SNum m e) = TNum (of_int m * 10 powi e)"
| "token_of_sort_value (SStr s) = TStr s"

definition tail_tokens :: "sort_value list \<Rightarrow> token list" where
  "tail_tokens vs = concat (map (\<lambda>v. [Comma, token_of_sort_value v]) vs) @ [RBrack]"

definition tail_text :: "sort_value list \<Rightarrow> string" where
  "tail_text vs = concat (map (\<lambda>v. CHR '','' # stringify_sort_value v) vs) @ '']''"

section \<open>The query compiler of \<open>listProducts\<close>\<close>

text \<open>
  \<open>ListProductsOptions\<close>, with the properties of \<open>ScopeOption\<close> the service reads
  (\<open>brandId\<close>, \<open>mallId\<close>, \<open>category\<close>).
\<close>

record scope_option =
  brandId :: "string option"
  mallId :: "string option"
  category :: "string option"

record list_products_options = scope_option +
  keyword :: "string option"
  nextToken :: "string option"
  size_opt :: int
  categories :: "string list option"
  minPrice :: "int option"
  maxPrice :: "int option"
  brands :: "string list option"
  sortBy :: "string option"
  skus :: "string list option"
  checkStatus :: "bool option"
  color :: "string list option"
  pageSize :: "int option"

text \<open>
  The query clauses the service writes. \<open>Range_q f (Gte b)\<close> is
  \<open>{ range: { f: { gte: b } } }\<close>; a bound that is \<open>undefined\<close> is not serialized. \<open>Bool\<close>
  holds the \<open>should\<close>, \<open>minimum_should_match\<close>, \<open>must\<close> and \<open>filter\<close> properties, each
  present or not; a \<open>must\<close> with one clause is the list of that clause.
\<close>

datatype range_bound = Gte "int option" | Lte "int option"

datatype query =
    Term string string
  | Terms string "string list"
  | Match string string
  | Match_phrase_prefix string string
  | Range_q string range_bound
  | Nested string query
  | Bool "query list option" "int option" "query list option" "query list option"
  | Query_string string
  | Match_all

datatype sort_dir = Asc | Desc

datatype agg = Terms_agg string "string \<times> sort_dir" | Max_agg string | Min_agg string

record completion_suggest =
  sg_prefix :: string
  sg_field :: string
  sg_size :: int

record search_request =
  size_rq :: int
  query_rq :: query
  suggest_rq :: "(string \<times> completion_suggest) list option"
  sort_rq :: "(string \<times> sort_dir) list"
  aggs :: "(string \<times> agg) list"
  search_after :: "json option"

text \<open>The two nested clauses of one SKU.\<close>

definition sku_clauses :: "string \<Rightarrow> query list" where
  "sku_clauses item =
     [Nested ''byStore''
        (Bool None None (Some [Match ''byStore.sku'' (toLowerCase item)]) None),
      Nested ''byStore.children''
        (Bool None None (Some [Match ''byStore.children.sku'' (toLowerCase item)]) None)]"

text \<open>\<open>queryMust\<close>, in the order the clauses are pushed: SKUs, colours, price range.\<close>

definition queryMust :: "list_products_options \<Rightarrow> query list" where
  "queryMust options =
     (if has_items (skus options)
      then [Bool (Some (concat (map sku_clauses (or_empty (skus options))))) (Some 1) None None]
      else [])
     @ (if has_items (color options)
        then [Bool (Some (map (Match ''colorSwatchs'') (or_empty (color options)))) (Some 1) None None]
        else [])
     @ (if truthy_num (minPrice options) \<or> truthy_num (maxPrice options)
        then [Range_q ''actualMinPrice'' (Gte (minPrice options)),
              Range_q ''actualMinPrice'' (Lte (maxPrice options))]
        else [])"

definition queryShould :: "list_products_options \<Rightarrow> query list" where
  "queryShould options =
     (if truthy_str (keyword options)
      then [Match_phrase_prefix ''title.th'' (the (keyword options)),
            Match_phrase_prefix ''title.en'' (the (keyword options))]
      else [])
     @ (if has_items (categories options)
        then map (Match ''categorySlugs'') (or_empty (categories options))
        else [])"

definition suggestProducts :: "list_products_options \<Rightarrow> (string \<times> completion_suggest) list" where
  "suggestProducts options =
     (if truthy_str (keyword options)
      then [(''suggestionEn'',
               \<lparr> sg_prefix = the (keyword options), sg_field = ''titleSuggest.en'', sg_size = 5 \<rparr>),
            (''suggestionTh'',
               \<lparr> sg_prefix = the (keyword options), sg_field = ''titleSuggest.th'', sg_size = 5 \<rparr>)]
      else [])"

text \<open>\<open>queryBoolFilters\<close>: the mall, the brand pin, the category pin, the brand set.\<close>

definition queryBoolFilters :: "list_products_options \<Rightarrow> query list" where
  "queryBoolFilters options =
     (if truthy_str (mallId options)
      then [Nested ''byStore''
              (Bool None None (Some [Match ''byStore.mallId'' (the (mallId options))]) None)]
      else [])
     @ (if truthy_str (brandId options)
        then [Term ''annotatedBrand'' (the (brandId options))] else [])
     @ (if truthy_str (category options)
        then [Term ''categorySlugs'' (the (category options))] else [])
     @ (if has_items (brands options)
        then [Terms ''annotatedBrand'' (or_empty (brands options))] else [])"

definition aggBrandId :: "list_products_options \<Rightarrow> (string \<times> agg) list" where
  "aggBrandId options =
     (if truthy_str (brandId options) then []
      else [(''brands'', Terms_agg ''annotatedBrand'' (''_count'', Desc))])"

definition aggCategory :: "list_products_options \<Rightarrow> (string \<times> agg) list" where
  "aggCategory options =
     (if truthy_str (category options) then []
      else [(''categorySlugs'', Terms_agg ''categorySlugs'' (''_count'', Desc))])"

definition aggColorSwatch :: "string list \<Rightarrow> (string \<times> agg) list" where
  "aggColorSwatch filterableAttributeSlugs =
     (if ''colorSwatch'' \<in> set filterableAttributeSlugs
      then [(''colorSwatch'', Terms_agg ''colorSlugs'' (''_count'', Desc))]
      else [])"

text \<open>
  The alias of a sort token, tried in the order of the source; an unknown token throws.
\<close>

definition sort_alias :: "string \<Rightarrow> js_error + string" where
  "sort_alias sortBy' =
     (if test_i ''createdAt'' sortBy' then Inr ''createdAt''
      else if test_i ''price'' sortBy' then Inr ''actualMinPrice''
      else if test_i ''discountPercent'' sortBy' then Inr ''discountPercent''
      else if test_i ''id'' sortBy' then Inr ''id''
      else Inl (FromUserInput BadRequest (''Unknown sort by option: '' @ sortBy')))"

definition sortDir :: "string \<Rightarrow> sort_dir" where
  "sortDir sortBy' = (case sortBy' of c # cs \<Rightarrow> if c = CHR ''-'' then Desc else Asc | [] \<Rightarrow> Asc)"

definition sortNode :: "list_products_options \<Rightarrow> js_error + (string \<times> sort_dir) list" where
  "sortNode options =
     (if truthy_str (sortBy options) then
        (case sort_alias (the (sortBy options)) of
           Inl e \<Rightarrow> Inl e
         | Inr field \<Rightarrow>
             Inr [(''_score'', Desc), (field, sortDir (the (sortBy options))), (''id'', Asc)])
      else Inr [(''_score'', Desc), (''id'', Asc)])"

text \<open>
  \<open>queryNode\<close>: the \<open>bool\<close> node of the sections that have clauses, or the match-everything
  query when there is none.
\<close>

definition queryNode :: "list_products_options \<Rightarrow> query" where
  "queryNode options =
     (let should = queryShould options; must = queryMust options;
          filters = queryBoolFilters options
      in if should = [] \<and> must = [] \<and> filters = [] then Query_string ''*''
         else Bool (if should \<noteq> [] then Some should else None)
                   (if should \<noteq> [] then Some 1 else None)
                   (if must \<noteq> [] then Some must else None)
                   (if filters \<noteq> [] then Some filters else None))"

text \<open>
  The request body, up to the call of the engine. The sort token is checked before the
  cursor is decoded, as in the source.
\<close>

definition requestBody :: "list_products_options \<Rightarrow> string list \<Rightarrow> js_error + search_request" where
  "requestBody options filterableAttributeSlugs =
     (case sortNode options of
        Inl e \<Rightarrow> Inl e
      | Inr sortNode' \<Rightarrow>
          (let body =
             \<lparr> size_rq = size_opt options,
               query_rq = queryNode options,
               suggest_rq = (if suggestProducts options \<noteq> [] then Some (suggestProducts options) else None),
               sort_rq = sortNode',
               aggs = aggBrandId options
                      @ [(''priceMax'', Max_agg ''priceMax''), (''priceMin'', Min_agg ''priceMin'')]
                      @ aggCategory options @ aggColorSwatch filterableAttributeSlugs,
               search_after = None \<rparr>
           in if truthy_str (nextToken options) then
                (case cursor_decode (the (nextToken options)) of
                   None \<Rightarrow> Inl syntax_error
                 | Some after \<Rightarrow> Inr (body \<lparr> search_after := Some after \<rparr>))
              else Inr body))"

section \<open>The engine's response and its projection\<close>

text \<open>A hit: \<open>item.sort\<close> (absent when the engine sent none) and \<open>item._source\<close>.\<close>

record 'a hit =
  sort_es :: "sort_value list option"
  source :: 'a

record total_info =
  value_es :: "int option"
  relation :: "string option"

record bucket =
  key :: string
  doc_count :: int

text \<open>
  \<open>ProductListAggregrationResult\<close>: the two price aggregations by their \<open>value\<close> (\<open>None\<close>
  is \<open>null\<close>), the three facets by their \<open>buckets\<close> (\<open>None\<close> when the facet or its buckets
  are missing).
\<close>

record aggregations_result =
  priceMin_agg :: "int option"
  priceMax_agg :: "int option"
  brands_agg :: "bucket list option"
  categorySlugs_agg :: "bucket list option"
  colorSwatch_agg :: "bucket list option"

text \<open>
  \<open>ProductListSuggestResult\<close>: an option is given by the \<open>title\<close> of its \<open>_source\<close>, and a
  suggester's result is the list of its entries, each with its options.
\<close>

record product_title =
  title_en :: string
  title_th :: string

record 'a suggest_entry =
  sg_options :: "'a list"

record product_suggest =
  suggestionEn :: "product_title suggest_entry list"
  suggestionTh :: "product_title suggest_entry list"

record ('a, 's) search_body =
  hits_es :: "'a hit list option"
  total_es :: "total_info option"
  aggregations :: "aggregations_result option"
  suggest :: "'s option"

record brand_facet =
  fa_brandId :: string
  fa_count :: int

record category_facet =
  slug :: string
  slug_count :: int

record price_range =
  priceMax :: "int option"
  priceMin :: "int option"

record lang =
  en :: "string option"
  th :: "string option"

record color_swatch =
  code :: "string option"
  label :: lang

record filterable_attribute =
  fa_brands :: "brand_facet list"
  fa_categories :: "category_facet list"
  price :: price_range
  colorSwatch :: "color_swatch list"

record total_out =
  value_out :: int
  isEstimate :: bool

record 'i list_products_result =
  items :: "'i list"
  nextToken_out :: "string option"
  total_out :: total_out
  filterableAttributes :: filterable_attribute
  suggestionProduct :: "string list"

text \<open>\<open>s || null\<close> for a string.\<close>

definition or_null :: "string \<Rightarrow> string option" where
  "or_null s = (if s = [] then None else Some s)"

text \<open>
  The \<open>hits.map\<close> callback, run over the hits with its index: \<open>len\<close> is \<open>arr.length\<close>,
  \<open>tok\<close> the variable \<open>nextToken\<close>, which the callback assigns at the last hit of a full
  page. \<open>deserialize\<close> stands for \<open>Deserialize(item._source, ProductModel)\<close>.
\<close>

fun map_hits ::
  "('a \<Rightarrow> 'i) \<Rightarrow> int \<Rightarrow> nat \<Rightarrow> nat \<Rightarrow> 'a hit list \<Rightarrow> string option
     \<Rightarrow> js_error + ('i list \<times> string option)" where
  "map_hits deserialize size' len index [] tok = Inr ([], tok)"
| "map_hits deserialize size' len index (item # rest) tok =
     (if int index = int len - 1 \<and> int len = size' then
        (case sort_es item of
           None \<Rightarrow> Inl (FromServer BadGateway ''Sort is missing from query result!'' None)
         | Some t \<Rightarrow>
             (case map_hits deserialize size' len (Suc index) rest (or_null (cursor_encode t)) of
                Inl e \<Rightarrow> Inl e
              | Inr (xs, tok') \<Rightarrow> Inr (deserialize (source item) # xs, tok')))
      else
        (case map_hits deserialize size' len (Suc index) rest tok of
           Inl e \<Rightarrow> Inl e
         | Inr (xs, tok') \<Rightarrow> Inr (deserialize (source item) # xs, tok')))"

text \<open>The callback of the \<open>colorSwatch\<close> projection.\<close>

definition project_color :: "bucket \<Rightarrow> color_swatch" where
  "project_color o' =
     (let colorLabel = split_key (key o')
      in \<lparr> code = index_opt colorLabel 0,
           label = \<lparr> en = index_opt colorLabel 1, th = index_opt colorLabel 2 \<rparr> \<rparr>)"

definition project_facets :: "aggregations_result option \<Rightarrow> filterable_attribute" where
  "project_facets aggregrations =
     (case aggregrations of
        None \<Rightarrow>
          \<lparr> fa_brands = [], fa_categories = [],
            price = \<lparr> priceMax = Some 999999, priceMin = Some 0 \<rparr>,
            colorSwatch = [] \<rparr>
      | Some a \<Rightarrow>
          \<lparr> fa_brands =
              map (\<lambda>o'. \<lparr> fa_brandId = key o', fa_count = doc_count o' \<rparr>) (or_empty (brands_agg a)),
            fa_categories =
              map (\<lambda>o'. \<lparr> slug = key o', slug_count = doc_count o' \<rparr>) (or_empty (categorySlugs_agg a)),
            price = \<lparr> priceMax = priceMax_agg a, priceMin = priceMin_agg a \<rparr>,
            colorSwatch = map project_color (or_empty (colorSwatch_agg a)) \<rparr>)"

text \<open>
  The suggestions: \<open>suggestionEn[0]\<close> and \<open>suggestionTh[0]\<close> are read without a guard, so a
  channel with no entry makes the property read throw.
\<close>

definition project_suggestions :: "product_suggest option \<Rightarrow> js_error + string list" where
  "project_suggestions suggestions =
     (case suggestions of
        None \<Rightarrow> Inr []
      | Some s \<Rightarrow>
          (case suggestionEn s of
             [] \<Rightarrow> Inl type_error
           | e # es \<Rightarrow>
               if sg_options e \<noteq> [] then Inr (map title_en (sg_options e))
               else
                 (case suggestionTh s of
                    [] \<Rightarrow> Inl type_error
                  | t # ts \<Rightarrow> Inr (map title_th (sg_options t)))))"

text \<open>
  \<open>totals\<close> is \<open>get(body, 'hits.total', {})\<close>; the value is
  \<open>totals && totals.value || items.length\<close> and the flag
  \<open>totals && totals?.relation !== 'eq'\<close>.
\<close>

definition project_total :: "total_info option \<Rightarrow> nat \<Rightarrow> total_out" where
  "project_total total' n =
     (let totals = (case total' of None \<Rightarrow> \<lparr> value_es = None, relation = None \<rparr> | Some t \<Rightarrow> t)
      in \<lparr> value_out = (if truthy_num (value_es totals) then the (value_es totals) else int n),
           isEstimate = (relation totals \<noteq> Some ''eq'') \<rparr>)"

section \<open>\<open>listProducts\<close>\<close>

definition PRODUCT_INDEX :: string where
  "PRODUCT_INDEX = ''products''"

definition BRAND_INDEX :: string where
  "BRAND_INDEX = ''brands''"

definition POPULAR_TERMS_INDEX :: string where
  "POPULAR_TERMS_INDEX = ''queryterms''"

definition BOOSTED_TERMS_INDEX :: string where
  "BOOSTED_TERMS_INDEX = ''boostedterms''"

text \<open>
  The body of the \<open>try\<close> block. \<open>search\<close> is \<open>this._client.search\<close>: it gives the response
  body or rejects with an error. Console output is left out.
\<close>

definition listProducts_try ::
  "(string \<Rightarrow> search_request \<Rightarrow> js_error + ('a, product_suggest) search_body) \<Rightarrow> ('a \<Rightarrow> 'i)
     \<Rightarrow> list_products_options \<Rightarrow> string list \<Rightarrow> js_error + 'i list_products_result" where
  "listProducts_try search deserialize options filterableAttributeSlugs =
     (case requestBody options filterableAttributeSlugs of
        Inl e \<Rightarrow> Inl e
      | Inr rq \<Rightarrow>
          (case search PRODUCT_INDEX rq of
             Inl e \<Rightarrow> Inl e
           | Inr body \<Rightarrow>
               (let hits = or_empty (hits_es body) in
                case map_hits deserialize (size_opt options) (length hits) 0 hits None of
                  Inl e \<Rightarrow> Inl e
                | Inr (items', nextToken') \<Rightarrow>
                    (case project_suggestions (suggest body) of
                       Inl e \<Rightarrow> Inl e
                     | Inr suggestionProduct' \<Rightarrow>
                         Inr \<lparr> items = items',
                               nextToken_out = nextToken',
                               total_out = project_total (total_es body) (length items'),
                               filterableAttributes = project_facets (aggregations body),
                               suggestionProduct = suggestionProduct' \<rparr>))))"

text \<open>The \<open>catch\<close> block hands whatever was thrown to \<open>_throwElasticSearchError\<close>.\<close>

definition listProducts ::
  "(string \<Rightarrow> search_request \<Rightarrow> js_error + ('a, product_suggest) search_body) \<Rightarrow> ('a \<Rightarrow> 'i)
     \<Rightarrow> list_products_options \<Rightarrow> string list \<Rightarrow> js_error + 'i list_products_result" where
  "listProducts search deserialize options filterableAttributeSlugs =
     (case listProducts_try search deserialize options filterableAttributeSlugs of
        Inl error \<Rightarrow> Inl (throwElasticSearchError error)
      | Inr result \<Rightarrow> Inr result)"

section \<open>\<open>listBrands\<close>\<close>

record brand_request =
  index_rq :: string
  b_size :: int
  b_query :: "query option"
  b_suggest :: "(string \<times> completion_suggest) list option"
  b_sort :: "(string \<times> sort_dir) list"
  b_search_after :: "json option"

text \<open>\<open>BrandListSuggestResult\<close>: an option is given by the \<open>id\<close> of its \<open>_source\<close>.\<close>

record brand_suggest =
  suggestion :: "string suggest_entry list"

record ('b, 'e) list_brands_result =
  b_items :: "'b list"
  b_nextToken :: "string option"
  b_total :: total_out
  suggestionBrand :: "'e list"

text \<open>Truthiness of a parsed value and lodash's \<open>isEmpty\<close> on it.\<close>

fun truthy_json :: "json \<Rightarrow> bool" where
  "truthy_json JNull = False"
| "truthy_json (JBool b) = b"
| "truthy_json (JNum q) = (q \<noteq> 0)"
| "truthy_json (JStr s) = (s \<noteq> [])"
| "truthy_json (JArr xs) = True"
| "truthy_json (JObj ms) = True"

fun isEmpty :: "json \<Rightarrow> bool" where
  "isEmpty (JStr s) = (s = [])"
| "isEmpty (JArr xs) = (xs = [])"
| "isEmpty (JObj ms) = (ms = [])"
| "isEmpty j = True"

definition brandsRequestBody :: "list_products_options \<Rightarrow> js_error + brand_request" where
  "brandsRequestBody options =
     (case (if truthy_str (nextToken options)
            then (case cursor_decode (the (nextToken options)) of
                    None \<Rightarrow> Inl syntax_error | Some after \<Rightarrow> Inr after)
            else Inr (JObj [])) of
        Inl e \<Rightarrow> Inl e
      | Inr searchAfter \<Rightarrow>
          Inr \<lparr> index_rq = BRAND_INDEX,
                b_size = 24,
                b_query = Some (if truthy_str (keyword options)
                                then Match_phrase_prefix ''title'' (the (keyword options))
                                else Match_all),
                b_suggest = (if truthy_str (keyword options)
                             then Some [(''suggestion'',
                                    \<lparr> sg_prefix = the (keyword options), sg_field = ''titleSuggest'',
                                      sg_size = 5 \<rparr>)]
                             else None),
                b_sort = [(''_score'', Desc), (''id'', Asc)],
                b_search_after = (if truthy_json searchAfter \<and> \<not> isEmpty searchAfter
                                  then Some searchAfter else None) \<rparr>)"

definition project_brand_suggestions :: "brand_suggest option \<Rightarrow> js_error + string list" where
  "project_brand_suggestions suggestions =
     (case suggestions of
        None \<Rightarrow> Inr []
      | Some s \<Rightarrow> (case suggestion s of [] \<Rightarrow> Inl type_error | e # es \<Rightarrow> Inr (sg_options e)))"

text \<open>
  \<open>search\<close> is \<open>this._client.search\<close> and \<open>find_brands\<close> the lookup \<open>DI.em.find(BrandEntity, ...)\<close>
  of the suggested ids; each gives its result or rejects.
\<close>

definition listBrands_try ::
  "(brand_request \<Rightarrow> js_error + ('b, brand_suggest) search_body) \<Rightarrow> (string list \<Rightarrow> js_error + 'e list)
     \<Rightarrow> list_products_options \<Rightarrow> js_error + ('b, 'e) list_brands_result" where
  "listBrands_try search find_brands options =
     (case brandsRequestBody options of
        Inl e \<Rightarrow> Inl e
      | Inr rq \<Rightarrow>
          (case search rq of
             Inl e \<Rightarrow> Inl e
           | Inr body \<Rightarrow>
               (let hits = or_empty (hits_es body) in
                case map_hits (\<lambda>src. src) (size_opt options) (length hits) 0 hits None of
                  Inl e \<Rightarrow> Inl e
                | Inr (items', nextToken') \<Rightarrow>
                    (case project_brand_suggestions (suggest body) of
                       Inl e \<Rightarrow> Inl e
                     | Inr suggestion' \<Rightarrow>
                         (case find_brands suggestion' of
                            Inl e \<Rightarrow> Inl e
                          | Inr brandsList \<Rightarrow>
                              Inr \<lparr> b_items = items',
                                    b_nextToken = nextToken',
                                    b_total = project_total (total_es body) (length items'),
                                    suggestionBrand = brandsList \<rparr>)))))"

definition listBrands ::
  "(brand_request \<Rightarrow> js_error + ('b, brand_suggest) search_body) \<Rightarrow> (string list \<Rightarrow> js_error + 'e list)
     \<Rightarrow> list_products_options \<Rightarrow> js_error + ('b, 'e) list_brands_result" where
  "listBrands search find_brands options =
     (case listBrands_try search find_brands options of
        Inl error \<Rightarrow> Inl (throwElasticSearchError error)
      | Inr result \<Rightarrow> Inr result)"

section \<open>The term tracker\<close>

definition fromScopeToDomain :: "'z scope_option_scheme \<Rightarrow> string" where
  "fromScopeToDomain scope =
     (let dg = (if truthy_str (brandId scope) then ''brand'' else ''global'');
          ds = (if truthy_str (brandId scope) then the (brandId scope) else [])
      in join '':'' (filter (\<lambda>s. s \<noteq> []) [dg, ds]))"

record upsert_doc =
  q :: string
  domain :: string
  hit :: "int option"
  score :: "int option"

record update_request =
  u_index :: string
  u_id :: string
  script_source :: string
  script_params :: "(string \<times> int) list"
  upsert :: upsert_doc
  retry_on_conflict :: int

text \<open>
  \<open>md5\<close> stands for \<open>createHash('md5').update(s).digest('base64')\<close>.
\<close>

definition track_request :: "(string \<Rightarrow> string) \<Rightarrow> 'z scope_option_scheme \<Rightarrow> string \<Rightarrow> update_request" where
  "track_request md5 scope typed =
     (let domain' = fromScopeToDomain scope in
      \<lparr> u_index = POPULAR_TERMS_INDEX,
        u_id = md5 (toLowerCase (domain' @ ''/'' @ typed)),
        script_source = ''ctx._source.hit+=1'',
        script_params = [],
        upsert = \<lparr> q = toLowerCase typed, domain = domain', hit = Some 1, score = None \<rparr>,
        retry_on_conflict = 3 \<rparr>)"

definition boost_request ::
  "(string \<Rightarrow> string) \<Rightarrow> 'z scope_option_scheme \<Rightarrow> string \<Rightarrow> int \<Rightarrow> update_request" where
  "boost_request md5 scope keyword' score' =
     (let domain' = fromScopeToDomain scope in
      \<lparr> u_index = BOOSTED_TERMS_INDEX,
        u_id = md5 (toLowerCase (domain' @ ''/'' @ keyword')),
        script_source = ''ctx._source.score = params.score;'',
        script_params = [(''score'', score')],
        upsert = \<lparr> q = toLowerCase keyword', domain = domain', hit = None, score = Some score' \<rparr>,
        retry_on_conflict = 3 \<rparr>)"

text \<open>
  \<open>update\<close> is \<open>this._client.update\<close>: it resolves or rejects. Each operation gives what
  the caller gets (\<open>Inr ()\<close> when the promise resolves) and the console lines written.
  \<open>trackUserSearchedKeywords\<close> ends the call with \<open>.catch(_logElasticSearchError)\<close>,
  \<open>updateDomainBoostedKeywords\<close> with \<open>.catch(_throwElasticSearchError)\<close>.
\<close>

definition trackUserSearchedKeywords ::
  "(string \<Rightarrow> string) \<Rightarrow> (update_request \<Rightarrow> js_error + 'r) \<Rightarrow> 'z scope_option_scheme \<Rightarrow> string
     \<Rightarrow> (js_error + unit) \<times> console_line list" where
  "trackUserSearchedKeywords md5 update scope typed =
     (case update (track_request md5 scope typed) of
        Inl error \<Rightarrow> (Inr (), logged error)
      | Inr r \<Rightarrow> (Inr (), []))"

definition updateDomainBoostedKeywords ::
  "(string \<Rightarrow> string) \<Rightarrow> (update_request \<Rightarrow> js_error + 'r) \<Rightarrow> 'z scope_option_scheme \<Rightarrow> string \<Rightarrow> int
     \<Rightarrow> (js_error + unit) \<times> console_line list" where
  "updateDomainBoostedKeywords md5 update scope keyword' score' =
     (case update (boost_request md5 scope keyword' score') of
        Inl error \<Rightarrow>
          (Inl (throwElasticSearchError error),
           DOMAIN (fromScopeToDomain scope) # logged error)
      | Inr r \<Rightarrow> (Inr (), [DOMAIN (fromScopeToDomain scope)]))"

section \<open>Notions the properties are stated with\<close>

text \<open>The options that ask for nothing but a page of 24.\<close>

definition no_options :: list_products_options where
  "no_options =
     \<lparr> brandId = None, mallId = None, category = None, keyword = None, nextToken = None,
       size_opt = 24, categories = None, minPrice = None, maxPrice = None, brands = None,
       sortBy = None, skus = None, checkStatus = None, color = None, pageSize = None \<rparr>"

text \<open>The \<open>filter\<close> and the \<open>must\<close> section of a compiled query.\<close>

definition filter_clauses :: "query \<Rightarrow> query list" where
  "filter_clauses qr = (case qr of Bool s m mu f \<Rightarrow> or_empty f | _ \<Rightarrow> [])"

definition must_clauses :: "query \<Rightarrow> query list" where
  "must_clauses qr = (case qr of Bool s m mu f \<Rightarrow> or_empty mu | _ \<Rightarrow> [])"

fun is_range :: "query \<Rightarrow> bool" where
  "is_range (Range_q f b) = True"
| "is_range qr = False"

text \<open>The total the engine reports: its value and its relation, when present.\<close>

definition reported_value :: "('a, 's) search_body \<Rightarrow> int option" where
  "reported_value body = (case total_es body of None \<Rightarrow> None | Some t \<Rightarrow> value_es t)"

definition reported_relation :: "('a, 's) search_body \<Rightarrow> string option" where
  "reported_relation body = (case total_es body of None \<Rightarrow> None | Some t \<Rightarrow> relation t)"

text \<open>A response with one hit, the given total and the given suggestions.\<close>

definition one_hit_response ::
  "total_info option \<Rightarrow> 's option \<Rightarrow> (string, 's) search_body" where
  "one_hit_response t s =
     \<lparr> hits_es = Some [\<lparr> sort_es = Some [SNum 1 0, SStr ''p1''], source = ''p1'' \<rparr>],
       total_es = t, aggregations = None, suggest = s \<rparr>"

text \<open>The same response without a hit.\<close>

definition no_hit_response ::
  "total_info option \<Rightarrow> 's option \<Rightarrow> (string, 's) search_body" where
  "no_hit_response t s = \<lparr> hits_es = Some [], total_es = t, aggregations = None, suggest = s \<rparr>"

text \<open>A response with one hit and the given buckets of the \<open>colorSwatch\<close> facet.\<close>

definition color_response :: "bucket list option \<Rightarrow> (string, product_suggest) search_body" where
  "color_response buckets =
     \<lparr> hits_es = Some [\<lparr> sort_es = Some [SNum 1 0, SStr ''p1''], source = ''p1'' \<rparr>],
       total_es = None,
       aggregations =
         Some \<lparr> priceMin_agg = Some 100, priceMax_agg = Some 900, brands_agg = Some [],
                categorySlugs_agg = Some [], colorSwatch_agg = buckets \<rparr>,
       suggest = None \<rparr>"

text \<open>
  An engine that answers with one hit to a request whose \<open>search_after\<close> is the given one,
  and rejects every other request; and the result of a call it has answered.
\<close>

definition answers_cursor ::
  "json option \<Rightarrow> string \<Rightarrow> search_request \<Rightarrow> js_error + (string, product_suggest) search_body" where
  "answers_cursor after index rq =
     (if search_after rq = after then Inr (one_hit_response None None)
      else Inl (Error ''unexpected search_after'' None))"

definition one_hit_result :: "string list_products_result" where
  "one_hit_result =
     \<lparr> items = [''p1''], nextToken_out = None,
       total_out = \<lparr> value_out = 1, isEstimate = True \<rparr>,
       filterableAttributes =
         \<lparr> fa_brands = [], fa_categories = [],
           price = \<lparr> priceMax = Some 999999, priceMin = Some 0 \<rparr>, colorSwatch = [] \<rparr>,
       suggestionProduct = [] \<rparr>"

section \<open>Base64 decodes what it encodes\<close>

lemma b64_value_char: "n < 64 \<Longrightarrow> b64_value (b64_char n) = Some n"
  by (auto simp: b64_value_def b64_char_def of_char_of Let_def)

lemma b64_char_not_pad: "n < 64 \<Longrightarrow> b64_char n \<noteq> CHR ''=''"
  by (auto simp: b64_char_def char_of_quasi_inj dest!: arg_cong [where f = "of_char :: char \<Rightarrow> nat"] simp: of_char_of)

lemma b64_sextets_char: "n < 64 \<Longrightarrow> b64_sextets (b64_char n # cs) = n # b64_sextets cs"
  by (simp add: b64_value_char b64_char_not_pad)

lemma b64_sextets_pad: "b64_sextets (CHR ''='' # cs) = []"
  by simp

lemma sextet_bounds:
  fixes x y z :: nat
  assumes "x < 256" "y < 256" "z < 256"
  shows "x div 4 < 64" "(x mod 4) * 16 + y div 16 < 64" "(y mod 16) * 4 + z div 64 < 64"
    "z mod 64 < 64" "(x mod 4) * 16 < 64" "(y mod 16) * 4 < 64"
proof -
  have "x mod 4 < 4" "y div 16 < 16" "y mod 16 < 16" "z div 64 < 4"
    using assms by simp_all
  then show "(x mod 4) * 16 + y div 16 < 64" "(y mod 16) * 4 + z div 64 < 64"
    by linarith+
qed (use assms in simp_all)

lemma mod_16_shift: "((a :: nat) * 16 + b) mod 16 = b mod 16"
  by simp

lemma mod_4_shift: "((a :: nat) * 4 + b) mod 4 = b mod 4"
  by simp

lemma sextets_to_bytes:
  fixes x y z :: nat
  assumes "x < 256" "y < 256" "z < 256"
  shows "x div 4 * 4 + ((x mod 4) * 16 + y div 16) div 16 = x"
    "((x mod 4) * 16 + y div 16) mod 16 * 16 + ((y mod 16) * 4 + z div 64) div 4 = y"
    "((y mod 16) * 4 + z div 64) mod 4 * 64 + z mod 64 = z"
    "x div 4 * 4 + ((x mod 4) * 16) div 16 = x"
    "((x mod 4) * 16 + y div 16) mod 16 * 16 + ((y mod 16) * 4) div 4 = y"
proof -
  have y16: "y div 16 < 16" and z64: "z div 64 < 4"
    using assms by simp_all
  have a: "((x mod 4) * 16 + y div 16) div 16 = x mod 4"
    using y16 by simp
  have b: "((x mod 4) * 16 + y div 16) mod 16 = y div 16"
    using y16 by (simp only: mod_16_shift mod_less)
  have c: "((y mod 16) * 4 + z div 64) div 4 = y mod 16"
    using z64 by simp
  have d: "((y mod 16) * 4 + z div 64) mod 4 = z div 64"
    using z64 by (simp only: mod_4_shift mod_less)
  show "x div 4 * 4 + ((x mod 4) * 16 + y div 16) div 16 = x"
    by (simp only: a) simp
  show "((x mod 4) * 16 + y div 16) mod 16 * 16 + ((y mod 16) * 4 + z div 64) div 4 = y"
    by (simp only: b c) simp
  show "((y mod 16) * 4 + z div 64) mod 4 * 64 + z mod 64 = z"
    by (simp only: d) simp
  show "x div 4 * 4 + ((x mod 4) * 16) div 16 = x"
    by simp
  show "((x mod 4) * 16 + y div 16) mod 16 * 16 + ((y mod 16) * 4) div 4 = y"
    by (simp only: b) simp
qed

lemma b64_encode_sextets:
  "b64_bytes (b64_sextets (b64_encode bs)) = bs"
proof (induction bs rule: b64_encode.induct)
  case 1
  show ?case by simp
next
  case (2 a)
  have x: "(of_char a :: nat) < 256" by (rule nat_of_char_less_256)
  note sx = b64_sextets_char [OF sextet_bounds(1) [OF x x x]]
    b64_sextets_char [OF sextet_bounds(5) [OF x x x]]
  have "b64_sextets (b64_encode [a]) = [of_char a div 4, (of_char a mod 4) * 16]"
    by (simp only: b64_encode.simps Let_def sx b64_sextets_pad)
  then show ?case
    by (simp only: b64_bytes.simps sextets_to_bytes(4) [OF x x x] char_of_char)
next
  case (3 a b)
  have x: "(of_char a :: nat) < 256" and y: "(of_char b :: nat) < 256"
    by (rule nat_of_char_less_256)+
  note sx = b64_sextets_char [OF sextet_bounds(1) [OF x y y]]
    b64_sextets_char [OF sextet_bounds(2) [OF x y y]]
    b64_sextets_char [OF sextet_bounds(6) [OF x y y]]
  have "b64_sextets (b64_encode [a, b]) =
      [of_char a div 4, (of_char a mod 4) * 16 + of_char b div 16, (of_char b mod 16) * 4]"
    by (simp only: b64_encode.simps Let_def sx b64_sextets_pad)
  then show ?case
    by (simp only: b64_bytes.simps sextets_to_bytes(1,5) [OF x y y] char_of_char)
next
  case (4 a b c rest)
  have x: "(of_char a :: nat) < 256" and y: "(of_char b :: nat) < 256"
    and z: "(of_char c :: nat) < 256"
    by (rule nat_of_char_less_256)+
  note sx = b64_sextets_char [OF sextet_bounds(1) [OF x y z]]
    b64_sextets_char [OF sextet_bounds(2) [OF x y z]]
    b64_sextets_char [OF sextet_bounds(3) [OF x y z]]
    b64_sextets_char [OF sextet_bounds(4) [OF x y z]]
  have "b64_sextets (b64_encode (a # b # c # rest)) =
      of_char a div 4 # ((of_char a mod 4) * 16 + of_char b div 16)
        # ((of_char b mod 16) * 4 + of_char c div 64) # (of_char c mod 64)
        # b64_sextets (b64_encode rest)"
    by (simp only: b64_encode.simps Let_def sx append_Cons append_Nil)
  then show ?case
    by (simp only: b64_bytes.simps sextets_to_bytes(1,2,3) [OF x y z] char_of_char "4.IH"
        append_Cons append_Nil)
qed

lemma low_bytes_ascii: "\<forall>c \<in> set s. byte c < 128 \<Longrightarrow> low_bytes s = s"
  by (induction s) (simp_all add: Let_def)

lemma b64_char_ascii: "byte (b64_char n) < 128"
  by (auto simp: byte_def b64_char_def of_char_of)

lemma b64_encode_ascii: "\<forall>c \<in> set (b64_encode bs). byte c < 128"
proof (induction bs rule: b64_encode.induct)
  case 1
  show ?case by simp
next
  case (2 a)
  show ?case by (simp add: Let_def b64_char_ascii) (simp add: byte_def)
next
  case (3 a b)
  show ?case by (simp add: Let_def b64_char_ascii) (simp add: byte_def)
next
  case (4 a b c rest)
  then show ?case by (simp add: Let_def b64_char_ascii)
qed

lemma b64_roundtrip: "b64_decode (b64_encode bs) = bs"
  by (simp add: b64_decode_def low_bytes_ascii [OF b64_encode_ascii] b64_encode_sextets)

lemma b64_encode_nonempty: "bs \<noteq> [] \<Longrightarrow> b64_encode bs \<noteq> []"
  by (induction bs rule: b64_encode.induct) (simp_all add: Let_def)

section \<open>Reading a string literal that was written\<close>

lemma hex_value_char: "d < 16 \<Longrightarrow> hex_value (hex_char d) = Some d"
  by (auto simp: hex_value_def hex_char_def of_char_of Let_def)

lemma hex_value_zero: "hex_value CHR ''0'' = Some 0"
  by (simp add: hex_value_def)

lemma hex4_low: "n < 256 \<Longrightarrow> hex4 CHR ''0'' CHR ''0'' (hex_char (n div 16)) (hex_char (n mod 16)) = Some n"
  by (simp add: hex4_def hex_value_zero hex_value_char)

lemma char_is: "of_char c = (n :: nat) \<Longrightarrow> c = char_of n"
  by (metis char_of_char)

lemma lex_string_quote_char:
  "lex_string acc (quote_char c @ rest) = lex_string (c # acc) rest"
proof -
  let ?n = "of_char c :: nat"
  consider (quote) "c = CHR 0x22" | (bslash) "c = CHR 0x5C"
    | (named) "?n = 8 \<or> ?n = 12 \<or> ?n = 10 \<or> ?n = 13 \<or> ?n = 9"
    | (ctl) "?n < 32" "?n \<noteq> 8" "?n \<noteq> 12" "?n \<noteq> 10" "?n \<noteq> 13" "?n \<noteq> 9"
    | (raw) "c \<noteq> CHR 0x22" "c \<noteq> CHR 0x5C" "32 \<le> ?n"
    by linarith
  then show ?thesis
  proof cases
    case quote
    then show ?thesis by (simp add: quote_char_def unescape_def)
  next
    case bslash
    then show ?thesis by (simp add: quote_char_def unescape_def)
  next
    case named
    then show ?thesis
      by (auto simp: quote_char_def unescape_def Let_def dest!: char_is)
  next
    case ctl
    have q: "quote_char c = [CHR 0x5C, CHR ''u'', CHR ''0'', CHR ''0'', hex_char (?n div 16), hex_char (?n mod 16)]"
      using ctl by (auto simp: quote_char_def Let_def)
    have u: "utf8_unit ?n = [c]"
      using ctl by (simp add: utf8_unit_def)
    have h: "hex4 CHR ''0'' CHR ''0'' (hex_char (?n div 16)) (hex_char (?n mod 16)) = Some ?n"
      using ctl by (intro hex4_low) simp
    show ?thesis
      by (simp add: q h u)
  next
    case raw
    then show ?thesis
      by (simp add: quote_char_def Let_def)
  qed
qed

lemma lex_string_quote_body:
  "lex_string acc (concat (map quote_char s) @ CHR 0x22 # rest) = Some (rev acc @ s, rest)"
proof (induction s arbitrary: acc)
  case Nil
  show ?case by simp
next
  case (Cons c s)
  have "lex_string acc (concat (map quote_char (c # s)) @ CHR 0x22 # rest)
      = lex_string acc (quote_char c @ (concat (map quote_char s) @ CHR 0x22 # rest))"
    by simp
  also have "\<dots> = lex_string (c # acc) (concat (map quote_char s) @ CHR 0x22 # rest)"
    by (rule lex_string_quote_char)
  also have "\<dots> = Some (rev (c # acc) @ s, rest)"
    by (rule Cons.IH)
  finally show ?case by simp
qed

section \<open>Reading a number that was written\<close>

lemma is_digit_digit_char: "d < 10 \<Longrightarrow> is_digit (digit_char d)"
  by (simp add: is_digit_def digit_char_def of_char_of)

lemma digit_char_value: "d < 10 \<Longrightarrow> (of_char (digit_char d) :: nat) - 48 = d"
  by (simp add: digit_char_def of_char_of)

lemma char_of_48: "char_of (48 :: nat) = CHR ''0''"
proof -
  have "(of_char (char_of (48 :: nat)) :: nat) = of_char (CHR ''0'')"
    by (simp add: of_char_of)
  then show ?thesis by (simp only: of_char_eq_iff)
qed

lemma digit_char_zero: "d < 10 \<Longrightarrow> (digit_char d = CHR ''0'') = (d = 0)"
proof
  assume d: "d < 10" and "digit_char d = CHR ''0''"
  then have "(of_char (digit_char d) :: nat) = of_char (CHR ''0'')" by simp
  then show "d = 0" using d by (simp add: digit_char_def of_char_of)
qed (simp add: digit_char_def char_of_48)

lemma digit_char_not_minus: "d < 10 \<Longrightarrow> digit_char d \<noteq> CHR ''-''"
proof
  assume d: "d < 10" and "digit_char d = CHR ''-''"
  then have "(of_char (digit_char d) :: nat) = of_char (CHR ''-'')" by simp
  then show False using d by (simp add: digit_char_def of_char_of)
qed

lemma show_nat_digits: "\<forall>c \<in> set (show_nat n). is_digit c"
proof (induction n rule: show_nat.induct)
  case (1 n)
  show ?case
  proof (cases "n < 10")
    case True
    then show ?thesis by (subst show_nat.simps) (simp add: is_digit_digit_char)
  next
    case False
    then show ?thesis
      using 1 by (subst show_nat.simps) (simp add: is_digit_digit_char)
  qed
qed

lemma show_nat_nonempty: "show_nat n \<noteq> []"
  by (subst show_nat.simps) simp

lemma digits_value_snoc: "digits_value (ds @ [c]) = 10 * digits_value ds + (of_char c - 48)"
  by (simp add: digits_value_def)

lemma digits_value_show_nat: "digits_value (show_nat n) = n"
proof (induction n rule: show_nat.induct)
  case (1 n)
  show ?case
  proof (cases "n < 10")
    case True
    then show ?thesis
      by (subst show_nat.simps) (simp add: digits_value_def digit_char_value)
  next
    case False
    then have "digits_value (show_nat n) = 10 * (n div 10) + n mod 10"
      using 1 by (subst show_nat.simps) (simp add: digits_value_snoc digit_char_value)
    then show ?thesis by simp
  qed
qed

lemma show_nat_hd: "0 < n \<Longrightarrow> hd (show_nat n) \<noteq> CHR ''0''"
proof (induction n rule: show_nat.induct)
  case (1 n)
  show ?case
  proof (cases "n < 10")
    case True
    then show ?thesis
      using 1(2) by (subst show_nat.simps) (simp add: digit_char_zero)
  next
    case False
    then have "0 < n div 10" by simp
    then have "hd (show_nat (n div 10)) \<noteq> CHR ''0''" using 1(1) False by simp
    then show ?thesis
      using False by (subst show_nat.simps) (simp add: show_nat_nonempty)
  qed
qed

lemma show_nat_single: "show_nat 0 = [CHR ''0'']"
  by (subst show_nat.simps) (simp add: digit_char_def char_of_48)

lemma show_nat_no_leading_zero: "\<not> (1 < length (show_nat n) \<and> hd (show_nat n) = CHR ''0'')"
  by (cases "n = 0") (simp_all add: show_nat_single show_nat_hd)

lemma show_nat_hd_not_minus: "hd (show_nat n) \<noteq> CHR ''-''"
proof -
  have "hd (show_nat n) \<in> set (show_nat n)" by (simp add: show_nat_nonempty)
  then have "is_digit (hd (show_nat n))" using show_nat_digits by blast
  then show ?thesis by (auto simp: is_digit_def)
qed

lemma takeWhile_show_nat:
  "\<not> is_digit c \<Longrightarrow> takeWhile is_digit (show_nat n @ c # rest) = show_nat n"
  using show_nat_digits [of n] by (simp add: takeWhile_append2)

lemma dropWhile_show_nat:
  "\<not> is_digit c \<Longrightarrow> dropWhile is_digit (show_nat n @ c # rest) = c # rest"
  using show_nat_digits [of n] by (simp add: dropWhile_append2)

lemma foldl_digits:
  "foldl (\<lambda>v c. 10 * v + (of_char c - 48)) v ds
     = v * 10 ^ length ds + foldl (\<lambda>v c. 10 * v + (of_char c - 48)) (0::nat) ds"
proof (induction ds arbitrary: v)
  case Nil
  show ?case by simp
next
  case (Cons d ds)
  let ?f = "\<lambda>(v::nat) c. 10 * v + (of_char c - 48)"
  have "foldl ?f v (d # ds) = foldl ?f (10 * v + (of_char d - 48)) ds" by simp
  also have "\<dots> = (10 * v + (of_char d - 48)) * 10 ^ length ds + foldl ?f 0 ds"
    by (rule Cons.IH)
  also have "\<dots> = v * 10 ^ length (d # ds) + ((of_char d - 48) * 10 ^ length ds + foldl ?f 0 ds)"
    by (simp add: algebra_simps)
  also have "(of_char d - 48) * 10 ^ length ds + foldl ?f 0 ds = foldl ?f (of_char d - 48) ds"
    by (rule Cons.IH [symmetric])
  also have "foldl ?f (of_char d - 48) ds = foldl ?f 0 (d # ds)" by simp
  finally show ?case .
qed

lemma digits_value_append:
  "digits_value (a @ b) = digits_value a * 10 ^ length b + digits_value b"
  unfolding digits_value_def foldl_append by (rule foldl_digits)

lemma digit_zero: "is_digit CHR ''0''" "(of_char CHR ''0'' :: nat) - 48 = 0"
  by (simp_all add: is_digit_def)

lemma digits_value_zeros: "digits_value (replicate z CHR ''0'') = 0"
  by (induction z) (simp_all add: digits_value_def)

lemma digits_value_zeros_append: "digits_value (replicate z CHR ''0'' @ ds) = digits_value ds"
  by (simp add: digits_value_append digits_value_zeros)

lemma digits_value_append_zeros: "digits_value (ds @ replicate z CHR ''0'') = digits_value ds * 10 ^ z"
  by (simp add: digits_value_append digits_value_zeros)

lemma strip_zeros_value:
  "strip_zeros s e = (s', e') \<Longrightarrow>
   (of_nat s' :: rat) * 10 powi e' = of_nat s * 10 powi e \<and> (0 < s \<longrightarrow> 0 < s')"
proof (induction s e arbitrary: s' e' rule: strip_zeros.induct)
  case (1 s e)
  show ?case
  proof (cases "s \<noteq> 0 \<and> s mod 10 = 0")
    case True
    then have st: "strip_zeros (s div 10) (e + 1) = (s', e')"
      using "1.prems" by (subst (asm) strip_zeros.simps) simp
    have s: "s = 10 * (s div 10)" using True by presburger
    have ih: "(of_nat s' :: rat) * 10 powi e' = of_nat (s div 10) * 10 powi (e + 1)"
      and pos: "0 < s div 10 \<longrightarrow> 0 < s'"
      using "1.IH" [OF True st] by simp_all
    have "(of_nat (s div 10) :: rat) * 10 powi (e + 1) = of_nat (10 * (s div 10)) * 10 powi e"
      by (simp add: power_int_add)
    then have "(of_nat s' :: rat) * 10 powi e' = of_nat s * 10 powi e"
      using s ih by simp
    moreover have "0 < s div 10" using True by presburger
    ultimately show ?thesis using pos by simp
  next
    case False
    then have "(s', e') = (s, e)"
      using "1.prems" by (subst (asm) strip_zeros.simps) (auto split: if_splits)
    then show ?thesis by simp
  qed
qed

lemma delim_not_digit:
  assumes "c = CHR '','' \<or> c = CHR '']''"
  shows "\<not> is_digit c" "c \<noteq> CHR ''.''" "c \<noteq> CHR ''e''" "c \<noteq> CHR ''E''"
  using assms by (auto simp: is_digit_def)

lemma takeWhile_digits:
  "\<forall>d \<in> set ip. is_digit d \<Longrightarrow> \<not> is_digit x \<Longrightarrow> takeWhile is_digit (ip @ x # t) = ip"
  by (simp add: takeWhile_append2)

lemma dropWhile_digits:
  "\<forall>d \<in> set ip. is_digit d \<Longrightarrow> \<not> is_digit x \<Longrightarrow> dropWhile is_digit (ip @ x # t) = x # t"
  by (simp add: dropWhile_append2)

lemma lex_fraction_none: "x \<noteq> CHR ''.'' \<Longrightarrow> lex_fraction (x # t) = Some (0, x # t)"
  by (simp add: lex_fraction_def)

lemma lex_fraction_digits:
  assumes "fp \<noteq> []" "\<forall>d \<in> set fp. is_digit d" "\<not> is_digit x"
  shows "lex_fraction (CHR ''.'' # fp @ x # t) =
           Some (of_nat (digits_value fp) / 10 ^ length fp, x # t)"
  using assms
  by (simp add: lex_fraction_def takeWhile_append2 dropWhile_append2 Let_def)

lemma lex_exponent_none:
  "x \<noteq> CHR ''e'' \<Longrightarrow> x \<noteq> CHR ''E'' \<Longrightarrow> lex_exponent (x # t) = Some (0, x # t)"
  by (simp add: lex_exponent_def)

lemma lex_exponent_plus:
  assumes "ep \<noteq> []" "\<forall>d \<in> set ep. is_digit d" "\<not> is_digit x"
  shows "lex_exponent (CHR ''e'' # CHR ''+'' # ep @ x # t) = Some (int (digits_value ep), x # t)"
  using assms
  by (simp add: lex_exponent_def takeWhile_append2 dropWhile_append2 Let_def)

lemma lex_exponent_minus:
  assumes "ep \<noteq> []" "\<forall>d \<in> set ep. is_digit d" "\<not> is_digit x"
  shows "lex_exponent (CHR ''e'' # CHR ''-'' # ep @ x # t) = Some (- int (digits_value ep), x # t)"
  using assms
  by (simp add: lex_exponent_def takeWhile_append2 dropWhile_append2 Let_def)

lemma digit_not_minus: "is_digit d \<Longrightarrow> d \<noteq> CHR ''-''"
  by (auto simp: is_digit_def)

lemma lex_number_pos:
  assumes ip: "ip \<noteq> []" "\<forall>d \<in> set ip. is_digit d" "\<not> (1 < length ip \<and> hd ip = CHR ''0'')"
    and x: "\<not> is_digit x"
    and fr: "lex_fraction (x # t) = Some (f, s2)" and ex: "lex_exponent s2 = Some (e, s3)"
  shows "lex_number (ip @ x # t) = Some ((of_nat (digits_value ip) + f) * 10 powi e, s3)"
proof -
  obtain d ds where s: "ip = d # ds" using ip(1) by (cases ip) auto
  have dm: "d \<noteq> CHR ''-''" using ip(2) s digit_not_minus by simp
  have tk: "takeWhile is_digit (d # ds @ x # t) = ip"
    using takeWhile_digits [OF ip(2) x, of t] s by simp
  have dr: "dropWhile is_digit (d # ds @ x # t) = x # t"
    using dropWhile_digits [OF ip(2) x, of t] s by simp
  have "lex_number (d # ds @ x # t) = Some ((of_nat (digits_value ip) + f) * 10 powi e, s3)"
    unfolding lex_number_def
    using ip(1,3)
    by (simp add: dm tk dr fr ex Let_def del: takeWhile.simps dropWhile.simps)
  then show ?thesis by (simp add: s)
qed

lemma lex_number_neg:
  assumes ip: "ip \<noteq> []" "\<forall>d \<in> set ip. is_digit d" "\<not> (1 < length ip \<and> hd ip = CHR ''0'')"
    and x: "\<not> is_digit x"
    and fr: "lex_fraction (x # t) = Some (f, s2)" and ex: "lex_exponent s2 = Some (e, s3)"
  shows "lex_number (CHR ''-'' # ip @ x # t) = Some (- ((of_nat (digits_value ip) + f) * 10 powi e), s3)"
  unfolding lex_number_def
  using ip(1,3)
  by (simp add: takeWhile_digits [OF ip(2) x] dropWhile_digits [OF ip(2) x] fr ex Let_def
      algebra_simps)

lemma lex_number_both:
  assumes ip: "ip \<noteq> []" "\<forall>d \<in> set ip. is_digit d" "\<not> (1 < length ip \<and> hd ip = CHR ''0'')"
    and x: "\<not> is_digit x"
    and fr: "lex_fraction (x # t) = Some (f, s2)" and ex: "lex_exponent s2 = Some (e, s3)"
    and tx: "text @ s3 = ip @ x # t"
    and v: "(of_nat (digits_value ip) + f) * 10 powi e = v"
  shows "lex_number (text @ s3) = Some (v, s3)"
    and "lex_number (CHR ''-'' # text @ s3) = Some (- v, s3)"
  using lex_number_pos [OF ip x fr ex] lex_number_neg [OF ip x fr ex] tx v by simp_all

lemma positional_integer:
  assumes ds: "ds \<noteq> []" "\<forall>d \<in> set ds. is_digit d" "hd ds \<noteq> CHR ''0''"
    and c: "c = CHR '','' \<or> c = CHR '']''"
  shows "lex_number ((ds @ replicate z CHR ''0'') @ c # rest)
           = Some (of_nat (digits_value ds) * 10 powi int z, c # rest)"
    and "lex_number (CHR ''-'' # (ds @ replicate z CHR ''0'') @ c # rest)
           = Some (- (of_nat (digits_value ds) * 10 powi int z), c # rest)"
proof -
  let ?ip = "ds @ replicate z CHR ''0''"
  have ip: "?ip \<noteq> []" "\<forall>d \<in> set ?ip. is_digit d" "\<not> (1 < length ?ip \<and> hd ?ip = CHR ''0'')"
    using ds by (auto simp: digit_zero)
  have v: "(of_nat (digits_value ?ip) + 0) * 10 powi 0 = (of_nat (digits_value ds) :: rat) * 10 powi int z"
    by (simp add: digits_value_append_zeros)
  note r = lex_number_both [OF ip delim_not_digit(1) [OF c] lex_fraction_none [OF delim_not_digit(2) [OF c]]
      lex_exponent_none [OF delim_not_digit(3,4) [OF c]] refl v]
  show "lex_number (?ip @ c # rest) = Some (of_nat (digits_value ds) * 10 powi int z, c # rest)"
    by (rule r(1))
  show "lex_number (CHR ''-'' # ?ip @ c # rest)
           = Some (- (of_nat (digits_value ds) * 10 powi int z), c # rest)"
    by (rule r(2))
qed

lemma positional_fraction:
  assumes ip: "ip \<noteq> []" "\<forall>d \<in> set ip. is_digit d" "\<not> (1 < length ip \<and> hd ip = CHR ''0'')"
    and fp: "fp \<noteq> []" "\<forall>d \<in> set fp. is_digit d"
    and c: "c = CHR '','' \<or> c = CHR '']''"
  shows "lex_number ((ip @ ''.'' @ fp) @ c # rest)
           = Some (of_nat (digits_value (ip @ fp)) * 10 powi (- int (length fp)), c # rest)"
    and "lex_number (CHR ''-'' # (ip @ ''.'' @ fp) @ c # rest)
           = Some (- (of_nat (digits_value (ip @ fp)) * 10 powi (- int (length fp))), c # rest)"
proof -
  have dot: "\<not> is_digit CHR ''.''" by (simp add: is_digit_def)
  have fr: "lex_fraction (CHR ''.'' # fp @ c # rest)
      = Some (of_nat (digits_value fp) / 10 ^ length fp, c # rest)"
    by (rule lex_fraction_digits [OF fp delim_not_digit(1) [OF c]])
  have v: "(of_nat (digits_value ip) + of_nat (digits_value fp) / 10 ^ length fp) * 10 powi 0
      = (of_nat (digits_value (ip @ fp)) :: rat) * 10 powi (- int (length fp))"
    by (simp add: digits_value_append power_int_minus field_simps)
  have tx: "(ip @ ''.'' @ fp) @ c # rest = ip @ CHR ''.'' # fp @ c # rest" by simp
  note r = lex_number_both [OF ip dot fr lex_exponent_none [OF delim_not_digit(3,4) [OF c]] tx v]
  show "lex_number ((ip @ ''.'' @ fp) @ c # rest)
           = Some (of_nat (digits_value (ip @ fp)) * 10 powi (- int (length fp)), c # rest)"
    by (rule r(1))
  show "lex_number (CHR ''-'' # (ip @ ''.'' @ fp) @ c # rest)
           = Some (- (of_nat (digits_value (ip @ fp)) * 10 powi (- int (length fp))), c # rest)"
    by (rule r(2))
qed

lemma lex_exponent_signed:
  assumes "ep \<noteq> []" "\<forall>d \<in> set ep. is_digit d" "\<not> is_digit x"
  shows "lex_exponent (CHR ''e'' # (if neg then CHR ''-'' else CHR ''+'') # ep @ x # t)
           = Some ((if neg then - int (digits_value ep) else int (digits_value ep)), x # t)"
  using lex_exponent_plus [OF assms] lex_exponent_minus [OF assms] by simp

lemma exponent_plain:
  assumes ip: "ip \<noteq> []" "\<forall>d \<in> set ip. is_digit d" "\<not> (1 < length ip \<and> hd ip = CHR ''0'')"
    and ep: "ep \<noteq> []" "\<forall>d \<in> set ep. is_digit d"
    and c: "c = CHR '','' \<or> c = CHR '']''"
    and xv: "xv = (if neg then - int (digits_value ep) else int (digits_value ep))"
  shows "lex_number ((ip @ ''e'' @ (if neg then ''-'' else ''+'') @ ep) @ c # rest)
           = Some (of_nat (digits_value ip) * 10 powi xv, c # rest)"
    and "lex_number (CHR ''-'' # (ip @ ''e'' @ (if neg then ''-'' else ''+'') @ ep) @ c # rest)
           = Some (- (of_nat (digits_value ip) * 10 powi xv), c # rest)"
proof -
  let ?sg = "if neg then CHR ''-'' else CHR ''+''"
  have e: "\<not> is_digit CHR ''e''" "CHR ''e'' \<noteq> CHR ''.''" by (simp_all add: is_digit_def)
  have ex: "lex_exponent (CHR ''e'' # ?sg # ep @ c # rest) = Some (xv, c # rest)"
    unfolding xv by (rule lex_exponent_signed [OF ep delim_not_digit(1) [OF c]])
  have tx: "(ip @ ''e'' @ (if neg then ''-'' else ''+'') @ ep) @ c # rest
      = ip @ CHR ''e'' # ?sg # ep @ c # rest" by simp
  have v: "(of_nat (digits_value ip) + 0) * 10 powi xv = (of_nat (digits_value ip) :: rat) * 10 powi xv"
    by simp
  note r = lex_number_both [OF ip e(1) lex_fraction_none [OF e(2)] ex tx v]
  show "lex_number ((ip @ ''e'' @ (if neg then ''-'' else ''+'') @ ep) @ c # rest)
           = Some (of_nat (digits_value ip) * 10 powi xv, c # rest)"
    by (rule r(1))
  show "lex_number (CHR ''-'' # (ip @ ''e'' @ (if neg then ''-'' else ''+'') @ ep) @ c # rest)
           = Some (- (of_nat (digits_value ip) * 10 powi xv), c # rest)"
    by (rule r(2))
qed

lemma exponent_fraction:
  assumes ip: "ip \<noteq> []" "\<forall>d \<in> set ip. is_digit d" "\<not> (1 < length ip \<and> hd ip = CHR ''0'')"
    and fp: "fp \<noteq> []" "\<forall>d \<in> set fp. is_digit d"
    and ep: "ep \<noteq> []" "\<forall>d \<in> set ep. is_digit d"
    and c: "c = CHR '','' \<or> c = CHR '']''"
    and xv: "xv = (if neg then - int (digits_value ep) else int (digits_value ep))"
  shows "lex_number ((ip @ ''.'' @ fp @ ''e'' @ (if neg then ''-'' else ''+'') @ ep) @ c # rest)
           = Some (of_nat (digits_value (ip @ fp)) * 10 powi (xv - int (length fp)), c # rest)"
    and "lex_number (CHR ''-'' # (ip @ ''.'' @ fp @ ''e'' @ (if neg then ''-'' else ''+'') @ ep) @ c # rest)
           = Some (- (of_nat (digits_value (ip @ fp)) * 10 powi (xv - int (length fp))), c # rest)"
proof -
  let ?sg = "if neg then CHR ''-'' else CHR ''+''"
  have e: "\<not> is_digit CHR ''e''" and dot: "\<not> is_digit CHR ''.''" by (simp_all add: is_digit_def)
  have fr: "lex_fraction (CHR ''.'' # fp @ CHR ''e'' # ?sg # ep @ c # rest)
      = Some (of_nat (digits_value fp) / 10 ^ length fp, CHR ''e'' # ?sg # ep @ c # rest)"
    by (rule lex_fraction_digits [OF fp e])
  have ex: "lex_exponent (CHR ''e'' # ?sg # ep @ c # rest) = Some (xv, c # rest)"
    unfolding xv by (rule lex_exponent_signed [OF ep delim_not_digit(1) [OF c]])
  have tx: "(ip @ ''.'' @ fp @ ''e'' @ (if neg then ''-'' else ''+'') @ ep) @ c # rest
      = ip @ CHR ''.'' # fp @ CHR ''e'' # ?sg # ep @ c # rest" by simp
  have "(of_nat (digits_value ip) + of_nat (digits_value fp) / 10 ^ length fp)
      = (of_nat (digits_value (ip @ fp)) :: rat) * 10 powi (- int (length fp))"
    by (simp add: digits_value_append power_int_minus field_simps)
  then have v: "(of_nat (digits_value ip) + of_nat (digits_value fp) / 10 ^ length fp) * 10 powi xv
      = (of_nat (digits_value (ip @ fp)) :: rat) * 10 powi (xv - int (length fp))"
    by (simp add: power_int_diff power_int_minus field_simps)
  note r = lex_number_both [OF ip dot fr ex tx v]
  show "lex_number ((ip @ ''.'' @ fp @ ''e'' @ (if neg then ''-'' else ''+'') @ ep) @ c # rest)
           = Some (of_nat (digits_value (ip @ fp)) * 10 powi (xv - int (length fp)), c # rest)"
    by (rule r(1))
  show "lex_number (CHR ''-'' # (ip @ ''.'' @ fp @ ''e'' @ (if neg then ''-'' else ''+'') @ ep) @ c # rest)
           = Some (- (of_nat (digits_value (ip @ fp)) * 10 powi (xv - int (length fp))), c # rest)"
    by (rule r(2))
qed

lemma lex_decimal_text:
  assumes s: "0 < s" and c: "c = CHR '','' \<or> c = CHR '']''"
  shows "lex_number (decimal_text s e @ c # rest) = Some (of_nat s * 10 powi e, c # rest)"
    and "lex_number (CHR ''-'' # decimal_text s e @ c # rest)
           = Some (- (of_nat s * 10 powi e), c # rest)"
proof -
  define ds where "ds = show_nat s"
  define k where "k = int (length ds)"
  define n where "n = e + k"
  have ne: "ds \<noteq> []" and dg: "\<forall>d \<in> set ds. is_digit d" and hd: "hd ds \<noteq> CHR ''0''"
    and dv: "digits_value ds = s"
    using show_nat_nonempty [of s] show_nat_digits [of s] show_nat_hd [OF s]
      digits_value_show_nat [of s]
    by (simp_all add: ds_def)
  have k1: "1 \<le> k" using ne by (cases ds) (simp_all add: k_def)
  have dt: "decimal_text s e =
     (if - 5 \<le> n \<and> n \<le> 21 then
        (if k \<le> n then ds @ replicate (nat (n - k)) CHR ''0''
         else if 0 < n then take (nat n) ds @ ''.'' @ drop (nat n) ds
         else ''0.'' @ replicate (nat (- n)) CHR ''0'' @ ds)
      else
        (if k = 1 then ds else hd ds # ''.'' @ tl ds)
        @ ''e'' @ (if n < 0 then ''-'' else ''+'') @ show_nat (nat \<bar>n - 1\<bar>))"
    by (simp add: decimal_text_def ds_def k_def n_def Let_def)
  let ?P = "\<lambda>text. lex_number (text @ c # rest) = Some (of_nat s * 10 powi e, c # rest)
      \<and> lex_number (CHR ''-'' # text @ c # rest) = Some (- (of_nat s * 10 powi e), c # rest)"
  have "?P (decimal_text s e)"
  proof (cases "- 5 \<le> n \<and> n \<le> 21")
    case inside: True
    have dtp: "decimal_text s e =
        (if k \<le> n then ds @ replicate (nat (n - k)) CHR ''0''
         else if 0 < n then take (nat n) ds @ ''.'' @ drop (nat n) ds
         else ''0.'' @ replicate (nat (- n)) CHR ''0'' @ ds)"
      by (simp only: dt inside if_True simp_thms)
    show ?thesis
    proof (cases "k \<le> n")
      case kn: True
      have z: "int (nat (n - k)) = e" using kn by (simp add: n_def)
      have "?P (ds @ replicate (nat (n - k)) CHR ''0'')"
        using positional_integer [OF ne dg hd c, of "nat (n - k)" rest, unfolded z dv]
        by simp
      then show ?thesis using kn by (simp add: dtp)
    next
      case kn: False
      show ?thesis
      proof (cases "0 < n")
        case pos: True
        let ?ip = "take (nat n) ds" and ?fp = "drop (nat n) ds"
        have ip: "?ip \<noteq> []" "\<forall>d \<in> set ?ip. is_digit d" "\<not> (1 < length ?ip \<and> hd ?ip = CHR ''0'')"
          using pos ne dg hd by (auto dest: in_set_takeD simp: hd_take)
        have "nat n < length ds" using kn pos by (simp add: k_def)
        then have fp: "?fp \<noteq> []" "\<forall>d \<in> set ?fp. is_digit d"
          using dg by (auto dest: in_set_dropD)
        have len: "- int (length ?fp) = e" using kn pos by (simp add: k_def n_def)
        have "?P (?ip @ ''.'' @ ?fp)"
          using positional_fraction [OF ip fp c, of rest, unfolded append_take_drop_id len dv]
          by simp
        then show ?thesis using kn pos by (simp add: dtp)
      next
        case pos: False
        let ?fp = "replicate (nat (- n)) CHR ''0'' @ ds"
        have ip: "''0'' \<noteq> []" "\<forall>d \<in> set ''0''. is_digit d" "\<not> (1 < length ''0'' \<and> hd ''0'' = CHR ''0'')"
          by (simp_all add: digit_zero)
        have fp: "?fp \<noteq> []" "\<forall>d \<in> set ?fp. is_digit d"
          using ne dg by (auto simp: digit_zero)
        have len: "- int (length ?fp) = e" using pos by (simp add: k_def n_def)
        have val: "digits_value (''0'' @ ?fp) = s"
          using digits_value_zeros_append [of "Suc (nat (- n))" ds] dv by simp
        have "?P (''0'' @ ''.'' @ ?fp)"
          using positional_fraction [OF ip fp c, of rest, unfolded len val]
          by simp
        then show ?thesis using kn pos by (simp add: dtp)
      qed
    qed
  next
    case out: False
    have dte: "decimal_text s e =
        (if k = 1 then ds else hd ds # ''.'' @ tl ds)
        @ ''e'' @ (if n < 0 then ''-'' else ''+'') @ show_nat (nat \<bar>n - 1\<bar>)"
      by (simp only: dt out if_False simp_thms)
    let ?ep = "show_nat (nat \<bar>n - 1\<bar>)"
    have ep: "?ep \<noteq> []" "\<forall>d \<in> set ?ep. is_digit d"
      using show_nat_nonempty show_nat_digits by blast+
    have xv: "n - 1 = (if n < 0 then - int (digits_value ?ep) else int (digits_value ?ep))"
      using out by (auto simp: digits_value_show_nat)
    show ?thesis
    proof (cases "k = 1")
      case True
      have ip: "ds \<noteq> []" "\<forall>d \<in> set ds. is_digit d" "\<not> (1 < length ds \<and> hd ds = CHR ''0'')"
        using ne dg hd by simp_all
      have e: "n - 1 = e" using True by (simp add: n_def)
      have "?P (ds @ ''e'' @ (if n < 0 then ''-'' else ''+'') @ ?ep)"
        using exponent_plain [OF ip ep c xv, of rest]
        by (simp add: dv e [symmetric])
      then show ?thesis using True by (simp add: dte)
    next
      case k: False
      obtain d tl' where dtl: "ds = d # tl'" using ne by (cases ds) auto
      have ip: "[d] \<noteq> []" "\<forall>x \<in> set [d]. is_digit x" "\<not> (1 < length [d] \<and> hd [d] = CHR ''0'')"
        using dg dtl by simp_all
      have fp: "tl' \<noteq> []" "\<forall>x \<in> set tl'. is_digit x"
        using k dg dtl by (auto simp: k_def)
      have e: "n - 1 - int (length tl') = e" using dtl by (simp add: n_def k_def)
      have val: "digits_value ([d] @ tl') = s" using dv dtl by simp
      have "?P ([d] @ ''.'' @ tl' @ ''e'' @ (if n < 0 then ''-'' else ''+'') @ ?ep)"
        using exponent_fraction [OF ip fp ep c xv, of rest, unfolded val]
        by (simp add: e [symmetric])
      then show ?thesis using k dtl by (simp add: dte)
    qed
  qed
  then show "lex_number (decimal_text s e @ c # rest) = Some (of_nat s * 10 powi e, c # rest)"
    and "lex_number (CHR ''-'' # decimal_text s e @ c # rest)
           = Some (- (of_nat s * 10 powi e), c # rest)"
    by simp_all
qed

lemma decimal_text_start: "\<exists>f fs. decimal_text s e = f # fs \<and> is_digit f"
proof -
  obtain d ds where ds: "show_nat s = d # ds"
    using show_nat_nonempty [of s] by (cases "show_nat s") auto
  then have d: "is_digit d" using show_nat_digits [of s] by simp
  show ?thesis
    using d by (auto simp: decimal_text_def ds Let_def digit_zero take_Cons' )
qed

lemma lex_number_text:
  assumes c: "c = CHR '','' \<or> c = CHR '']''"
  shows "lex_number (number_text m e @ c # rest) = Some (of_int m * 10 powi e, c # rest)"
proof -
  consider (zero) "m = 0" | (pos) "0 < m" | (neg) "m < 0" by linarith
  then show ?thesis
  proof cases
    case zero
    have ip: "''0'' \<noteq> []" "\<forall>d \<in> set ''0''. is_digit d" "\<not> (1 < length ''0'' \<and> hd ''0'' = CHR ''0'')"
      by (simp_all add: digit_zero)
    have "lex_number (''0'' @ c # rest) = Some ((of_nat (digits_value ''0'') + 0) * 10 powi 0, c # rest)"
      by (rule lex_number_pos [OF ip delim_not_digit(1) [OF c]
            lex_fraction_none [OF delim_not_digit(2) [OF c]]
            lex_exponent_none [OF delim_not_digit(3,4) [OF c]]])
    then show ?thesis using zero by (simp add: number_text_def digits_value_def)
  next
    case pos
    obtain s' e' where st: "strip_zeros (nat \<bar>m\<bar>) e = (s', e')" by fastforce
    have v: "(of_nat s' :: rat) * 10 powi e' = of_int m * 10 powi e" and s': "0 < s'"
      using strip_zeros_value [OF st] pos by simp_all
    have st': "strip_zeros (nat m) e = (s', e')" using st pos by simp
    show ?thesis
      using lex_decimal_text(1) [OF s' c, of e' rest] pos
      by (simp add: number_text_def st' v)
  next
    case neg
    obtain s' e' where st: "strip_zeros (nat \<bar>m\<bar>) e = (s', e')" by fastforce
    have "(of_nat s' :: rat) * 10 powi e' = of_nat (nat \<bar>m\<bar>) * 10 powi e" and s': "0 < s'"
      using strip_zeros_value [OF st] neg by simp_all
    then have v: "- ((of_nat s' :: rat) * 10 powi e') = of_int m * 10 powi e"
      using neg by simp
    have st': "strip_zeros (nat (- m)) e = (s', e')" using st neg by simp
    show ?thesis
      using lex_decimal_text(2) [OF s' c, of e' rest] neg
      by (simp add: number_text_def st' v)
  qed
qed

lemma number_text_start: "\<exists>f fs. number_text m e = f # fs \<and> (is_digit f \<or> f = CHR ''-'')"
proof -
  obtain s' e' where st: "strip_zeros (nat \<bar>m\<bar>) e = (s', e')" by fastforce
  obtain f fs where "decimal_text s' e' = f # fs" "is_digit f"
    using decimal_text_start by blast
  then show ?thesis
    by (auto simp: number_text_def st digit_zero)
qed

section \<open>Reading a sort-key tuple that was written\<close>

lemma number_start_char:
  assumes "is_digit f \<or> f = CHR ''-''"
  shows "\<not> is_ws f" "punct f = None" "f \<noteq> CHR 0x22"
  using assms by (auto simp: is_digit_def is_ws_def punct_def Let_def)

lemma lex_number_start:
  assumes "is_digit f \<or> f = CHR ''-''"
  shows "tokenize (f # cs) =
     (case lex_number (f # cs) of
        None \<Rightarrow> None
      | Some (x, rest) \<Rightarrow> map_option (Cons (TNum x)) (tokenize rest))"
proof -
  have "f = CHR ''-'' \<or> is_digit f" using assms by blast
  then show ?thesis
    by (simp only: tokenize.simps number_start_char [OF assms] if_False if_True simp_thms)
qed

lemma lex_punct:
  "tokenize (CHR '','' # cs) = map_option (Cons Comma) (tokenize cs)"
  "tokenize (CHR '']'' # cs) = map_option (Cons RBrack) (tokenize cs)"
  "tokenize (CHR ''['' # cs) = map_option (Cons LBrack) (tokenize cs)"
  by (simp_all add: is_ws_def punct_def)

lemma lex_sort_value:
  assumes c: "c = CHR '','' \<or> c = CHR '']''"
  shows "tokenize (stringify_sort_value v @ c # rest) =
           map_option (Cons (token_of_sort_value v)) (tokenize (c # rest))"
proof (cases v)
  case SNull
  then show ?thesis by (simp add: is_ws_def punct_def is_digit_def)
next
  case (SBool b)
  then show ?thesis by (simp add: is_ws_def punct_def is_digit_def)
next
  case (SNum m e)
  obtain f fs where s: "number_text m e = f # fs" and f: "is_digit f \<or> f = CHR ''-''"
    using number_text_start by blast
  have "lex_number (f # fs @ c # rest) = Some (of_int m * 10 powi e, c # rest)"
    using lex_number_text [OF c, of m e rest] s by simp
  then show ?thesis
    using SNum s lex_number_start [OF f, of "fs @ c # rest"]
    by (simp del: tokenize.simps)
next
  case (SStr s)
  have "lex_string [] (concat (map quote_char s) @ CHR 0x22 # c # rest) = Some (s, c # rest)"
    using lex_string_quote_body [of "[]" s "c # rest"] by simp
  then show ?thesis
    using SStr by (simp add: quote_def is_ws_def punct_def del: lex_string.simps)
qed

lemma tail_text_head: "\<exists>c r. tail_text vs = c # r \<and> (c = CHR '','' \<or> c = CHR '']'')"
  by (cases vs) (simp_all add: tail_text_def)

lemma tail_text_Cons: "tail_text (v # vs) = CHR '','' # stringify_sort_value v @ tail_text vs"
  by (simp add: tail_text_def)

lemma tail_tokens_Cons: "tail_tokens (v # vs) = Comma # token_of_sort_value v # tail_tokens vs"
  by (simp add: tail_tokens_def)

lemma lex_tail: "tokenize (tail_text vs) = Some (tail_tokens vs)"
proof (induction vs)
  case Nil
  show ?case by (simp add: tail_text_def tail_tokens_def is_ws_def punct_def)
next
  case (Cons v vs)
  obtain c r where t: "tail_text vs = c # r" and c: "c = CHR '','' \<or> c = CHR '']''"
    using tail_text_head by blast
  have "tokenize (stringify_sort_value v @ tail_text vs) =
          map_option (Cons (token_of_sort_value v)) (tokenize (tail_text vs))"
    using lex_sort_value [OF c, of v r] t by simp
  then show ?case
    by (simp only: tail_text_Cons tail_tokens_Cons lex_punct Cons.IH option.map)
qed

lemma join_tail:
  "join '','' (map stringify_sort_value (v # vs)) @ '']'' = stringify_sort_value v @ tail_text vs"
  by (induction vs arbitrary: v) (simp_all add: tail_text_def)

lemma lex_stringify_sort:
  "tokenize (stringify_sort t) =
     Some (LBrack # (case t of [] \<Rightarrow> [RBrack] | v # vs \<Rightarrow> token_of_sort_value v # tail_tokens vs))"
proof (cases t)
  case Nil
  then show ?thesis by (simp add: stringify_sort_def is_ws_def punct_def)
next
  case (Cons v vs)
  obtain c r where t: "tail_text vs = c # r" and c: "c = CHR '','' \<or> c = CHR '']''"
    using tail_text_head by blast
  have "tokenize (stringify_sort_value v @ tail_text vs) =
          Some (token_of_sort_value v # tail_tokens vs)"
    using lex_sort_value [OF c, of v r] t lex_tail [of vs] by simp
  moreover have "stringify_sort t = CHR ''['' # (stringify_sort_value v @ tail_text vs)"
    using Cons join_tail [of v vs] by (simp add: stringify_sort_def)
  ultimately show ?thesis
    using Cons by (simp only: lex_punct option.map list.case)
qed

lemma start_value_token:
  "start_value (token_of_sort_value v) st = push_value (json_of_sort_value v) st"
  by (cases v) simp_all

lemma token_not_bracket: "token_of_sort_value v \<noteq> RBrack"
  by (cases v) simp_all

lemma run_tail:
  "run (Comma_or_end, In_array acc # st) (tail_tokens vs) =
     push_value (JArr (rev acc @ map json_of_sort_value vs)) st"
proof (induction vs arbitrary: acc)
  case Nil
  show ?case by (simp add: tail_tokens_def split: option.splits)
next
  case (Cons v vs)
  have "run (Comma_or_end, In_array acc # st) (tail_tokens (v # vs)) =
        run (Comma_or_end, In_array (json_of_sort_value v # acc) # st) (tail_tokens vs)"
    by (simp add: tail_tokens_Cons start_value_token)
  then show ?case by (simp add: Cons.IH)
qed

lemma run_stringify_sort:
  "run (Value, []) (LBrack # (case t of [] \<Rightarrow> [RBrack] | v # vs \<Rightarrow> token_of_sort_value v # tail_tokens vs))
     = Some (Finished (JArr (map json_of_sort_value t)), [])"
proof (cases t)
  case Nil
  then show ?thesis by simp
next
  case (Cons v vs)
  then show ?thesis
    using run_tail [of "[json_of_sort_value v]" "[]" vs]
    by (simp add: token_not_bracket start_value_token)
qed

lemma json_parse_stringify_sort:
  "json_parse (stringify_sort t) = Some (JArr (map json_of_sort_value t))"
  by (simp only: json_parse_def lex_stringify_sort run_stringify_sort option.case prod.case
      expect.case)

lemma cursor_roundtrip:
  "cursor_decode (cursor_encode t) = Some (JArr (map json_of_sort_value t))"
  by (simp add: cursor_decode_def cursor_encode_def b64_roundtrip json_parse_stringify_sort)

lemma cursor_encode_nonempty: "cursor_encode t \<noteq> []"
  by (simp add: cursor_encode_def stringify_sort_def b64_encode_nonempty)

section \<open>The compiled request\<close>

lemma requestBody_fields:
  assumes "requestBody options slugs = Inr rq"
  shows "query_rq rq = queryNode options"
    and "aggs rq = aggBrandId options
                      @ [(''priceMax'', Max_agg ''priceMax''), (''priceMin'', Min_agg ''priceMin'')]
                      @ aggCategory options @ aggColorSwatch slugs"
    and "size_rq rq = size_opt options"
  using assms
  by (auto simp: requestBody_def Let_def split: sum.splits if_splits option.splits)

lemma filter_clauses_queryNode: "filter_clauses (queryNode options) = queryBoolFilters options"
  by (simp add: filter_clauses_def queryNode_def Let_def)

lemma must_clauses_queryNode: "must_clauses (queryNode options) = queryMust options"
  by (simp add: must_clauses_def queryNode_def Let_def)

lemma requestBody_no_options:
  "sortBy options = None \<Longrightarrow> nextToken options = None \<Longrightarrow>
   requestBody options slugs =
     Inr \<lparr> size_rq = size_opt options, query_rq = queryNode options,
           suggest_rq = (if suggestProducts options \<noteq> [] then Some (suggestProducts options) else None),
           sort_rq = [(''_score'', Desc), (''id'', Asc)],
           aggs = aggBrandId options
                    @ [(''priceMax'', Max_agg ''priceMax''), (''priceMin'', Min_agg ''priceMin'')]
                    @ aggCategory options @ aggColorSwatch slugs,
           search_after = None \<rparr>"
  by (simp add: requestBody_def sortNode_def Let_def)

section \<open>The result of a call\<close>

lemma map_hits_eq:
  "index + length hits = len \<Longrightarrow>
   map_hits deserialize size' len index hits tok =
     (if hits \<noteq> [] \<and> int len = size' then
        (case sort_es (last hits) of
           None \<Rightarrow> Inl (FromServer BadGateway ''Sort is missing from query result!'' None)
         | Some t \<Rightarrow> Inr (map (\<lambda>item. deserialize (source item)) hits, or_null (cursor_encode t)))
      else Inr (map (\<lambda>item. deserialize (source item)) hits, tok))"
proof (induction hits arbitrary: index tok)
  case Nil
  then show ?case by simp
next
  case (Cons item rest)
  have idx: "(int index = int len - 1) = (rest = [])"
    using Cons.prems by auto
  have ih: "map_hits deserialize size' len (Suc index) rest tok' =
     (if rest \<noteq> [] \<and> int len = size' then
        (case sort_es (last rest) of
           None \<Rightarrow> Inl (FromServer BadGateway ''Sort is missing from query result!'' None)
         | Some t \<Rightarrow> Inr (map (\<lambda>item. deserialize (source item)) rest, or_null (cursor_encode t)))
      else Inr (map (\<lambda>item. deserialize (source item)) rest, tok'))" for tok'
    using Cons.prems by (intro Cons.IH) simp
  show ?case
  proof (cases "rest = []")
    case True
    then show ?thesis
      by (simp add: idx split: option.splits)
  next
    case False
    then show ?thesis
      by (simp add: idx ih split: option.splits)
  qed
qed

lemma map_hits_items:
  "index + length hits = len \<Longrightarrow> map_hits deserialize size' len index hits tok = Inr (xs, tok') \<Longrightarrow>
   xs = map (\<lambda>item. deserialize (source item)) hits"
  by (auto simp: map_hits_eq split: if_splits option.splits)

lemma listProducts_Inr:
  assumes "listProducts search deserialize options slugs = Inr r"
  shows "\<exists>rq body. requestBody options slugs = Inr rq \<and> search PRODUCT_INDEX rq = Inr body
           \<and> map_hits deserialize (size_opt options) (length (or_empty (hits_es body))) 0
                (or_empty (hits_es body)) None = Inr (items r, nextToken_out r)
           \<and> project_suggestions (suggest body) = Inr (suggestionProduct r)
           \<and> total_out r = project_total (total_es body) (length (items r))
           \<and> filterableAttributes r = project_facets (aggregations body)"
  using assms
  by (auto simp: listProducts_def listProducts_try_def Let_def split: sum.splits prod.splits)

lemma listProducts_one_hit:
  "listProducts (\<lambda>index rq. Inr (one_hit_response t s)) (\<lambda>src. src) no_options [] =
     (case project_suggestions s of
        Inl e \<Rightarrow> Inl (throwElasticSearchError e)
      | Inr sp \<Rightarrow>
          Inr \<lparr> items = [''p1''], nextToken_out = None, total_out = project_total t 1,
                filterableAttributes =
                  \<lparr> fa_brands = [], fa_categories = [],
                    price = \<lparr> priceMax = Some 999999, priceMin = Some 0 \<rparr>, colorSwatch = [] \<rparr>,
                suggestionProduct = sp \<rparr>)"
  by (simp add: listProducts_def listProducts_try_def requestBody_no_options no_options_def
      one_hit_response_def project_facets_def Let_def split: sum.splits)

section \<open>Cursors of concrete pages\<close>

lemma or_null_cursor: "or_null (cursor_encode t) = Some (cursor_encode t)"
  by (simp add: or_null_def cursor_encode_nonempty)

lemma example_token: "cursor_encode [SNum 1 0, SStr ''p1''] = ''WzEsInAxIl0=''"
  by code_simp

lemma bad_token: "cursor_decode ''e3s='' = None"
  by code_simp

lemma listProducts_throws:
  "listProducts_try search deserialize options slugs = Inl e \<Longrightarrow>
   listProducts search deserialize options slugs =
     Inl (FromServer BadGateway ''ElasticSearch encountered an error''
            (Some (normalizeESErrorMessage e)))"
  by (simp add: listProducts_def throwElasticSearchError_def)


lemma example_token_3:
  "cursor_encode [SNum 15 (- 1), SStr ''sku-7'', SNull, SBool True] =
     ''WzEuNSwic2t1LTciLG51bGwsdHJ1ZV0=''"
  by code_simp

text \<open>
  Tokens that are not the encoding of a tuple: one with a character outside the base64
  alphabet, one with a character above U+00FF (U+0157, whose low byte is that of \<open>W\<close>), and
  the base64 of \<open>{}\<close>.
\<close>

lemma stray_character_token:
  "cursor_decode ''W!zEsInAxIl0='' = Some (JArr [JNum 1, JStr ''p1''])"
  by code_simp

lemma wide_character_token:
  "cursor_decode ([CHR 0xC5, CHR 0x97] @ ''zEsInAxIl0='') = Some (JArr [JNum 1, JStr ''p1''])"
  by code_simp

lemma object_token: "cursor_decode ''e30='' = Some (JObj [])"
  by code_simp

lemma requestBody_cursor:
  assumes "sortNode options = Inr s" "nextToken options = Some token" "token \<noteq> []"
    "cursor_decode token = Some j"
  shows "requestBody options slugs =
     Inr \<lparr> size_rq = size_opt options, query_rq = queryNode options,
           suggest_rq = (if suggestProducts options \<noteq> [] then Some (suggestProducts options) else None),
           sort_rq = s,
           aggs = aggBrandId options
                    @ [(''priceMax'', Max_agg ''priceMax''), (''priceMin'', Min_agg ''priceMin'')]
                    @ aggCategory options @ aggColorSwatch slugs,
           search_after = Some j \<rparr>"
  using assms by (simp add: requestBody_def Let_def)

lemma requestBody_empty_token:
  assumes "nextToken options = Some []"
  shows "requestBody options slugs = requestBody (options \<lparr> nextToken := None \<rparr>) slugs"
proof -
  let ?o = "options \<lparr> nextToken := None \<rparr>"
  have same: "sortNode ?o = sortNode options" "queryNode ?o = queryNode options"
    "suggestProducts ?o = suggestProducts options" "aggBrandId ?o = aggBrandId options"
    "aggCategory ?o = aggCategory options" "size_opt ?o = size_opt options"
    by (simp_all add: sortNode_def queryNode_def queryShould_def queryMust_def
        queryBoolFilters_def suggestProducts_def aggBrandId_def aggCategory_def
        cong: sum.case_cong)
  have "truthy_str (nextToken options) = False" "truthy_str (nextToken ?o) = False"
    using assms by simp_all
  then show ?thesis
    by (simp only: requestBody_def same if_False)
qed

lemma answers_cursor_call:
  assumes "nextToken options = Some token" "token \<noteq> []" "cursor_decode token = Some j"
    "sortNode options = Inr s" "size_opt options = 24"
  shows "listProducts (answers_cursor (Some j)) (\<lambda>src. src) options slugs = Inr one_hit_result"
  by (simp add: listProducts_def listProducts_try_def requestBody_cursor [OF assms(4,1,2,3)]
      assms(5) answers_cursor_def one_hit_response_def one_hit_result_def project_facets_def
      project_suggestions_def project_total_def Let_def)
section \<open>The result of \<open>listBrands\<close>\<close>

lemma listBrands_Inr:
  assumes "listBrands search find_brands options = Inr r"
  shows "\<exists>rq body. brandsRequestBody options = Inr rq \<and> search rq = Inr body
           \<and> map_hits (\<lambda>src. src) (size_opt options) (length (or_empty (hits_es body))) 0
                (or_empty (hits_es body)) None = Inr (b_items r, b_nextToken r)"
  using assms
  by (auto simp: listBrands_def listBrands_try_def Let_def split: sum.splits prod.splits)

lemma brandsRequestBody_size: "brandsRequestBody options = Inr rq \<Longrightarrow> b_size rq = 24"
  by (auto simp: brandsRequestBody_def split: sum.splits)

lemma brandsRequestBody_no_options:
  "nextToken options = None \<Longrightarrow> keyword options = None \<Longrightarrow>
   brandsRequestBody options =
     Inr \<lparr> index_rq = BRAND_INDEX, b_size = 24, b_query = Some Match_all, b_suggest = None,
           b_sort = [(''_score'', Desc), (''id'', Asc)], b_search_after = None \<rparr>"
  by (simp add: brandsRequestBody_def)

lemma listBrands_page:
  assumes "nextToken options = None" "keyword options = None" "hs \<noteq> []"
    "sort_es (last hs) = Some t"
  shows "listBrands
       (\<lambda>rq. Inr \<lparr> hits_es = Some hs, total_es = None, aggregations = None,
                    suggest = (None :: brand_suggest option) \<rparr>)
       (\<lambda>ids. Inr []) options =
     Inr \<lparr> b_items = map source hs,
           b_nextToken = (if int (length hs) = size_opt options then Some (cursor_encode t) else None),
           b_total = project_total None (length hs), suggestionBrand = [] \<rparr>"
  using assms
  by (simp add: listBrands_def listBrands_try_def brandsRequestBody_no_options map_hits_eq
      project_brand_suggestions_def or_null_cursor Let_def)

section \<open>Pins and facets\<close>

text \<open>
  C1. In every request \<open>listProducts\<close> compiles: a brand pin (a non-empty \<open>brandId\<close>) puts
  an exact term filter on the brand into the filter section and leaves the brand facet out
  of the aggregations; a brand set (a non-empty \<open>brands\<close>) puts a terms filter on its ids
  there, and without a brand pin the brand facet is requested; the category pin does to
  the category facet what the brand pin does to the brand facet.
\<close>

theorem brand_and_category_pins:
  assumes "requestBody options slugs = Inr rq"
  shows "(brandId options = Some b \<and> b \<noteq> [] \<longrightarrow>
            Term ''annotatedBrand'' b \<in> set (filter_clauses (query_rq rq))
            \<and> ''brands'' \<notin> fst ` set (aggs rq))
       \<and> (brands options = Some ids \<and> ids \<noteq> [] \<longrightarrow>
            Terms ''annotatedBrand'' ids \<in> set (filter_clauses (query_rq rq)))
       \<and> (\<not> truthy_str (brandId options) \<longrightarrow>
            (''brands'', Terms_agg ''annotatedBrand'' (''_count'', Desc)) \<in> set (aggs rq))
       \<and> (category options = Some c \<and> c \<noteq> [] \<longrightarrow>
            Term ''categorySlugs'' c \<in> set (filter_clauses (query_rq rq))
            \<and> ''categorySlugs'' \<notin> fst ` set (aggs rq))
       \<and> (\<not> truthy_str (category options) \<longrightarrow>
            (''categorySlugs'', Terms_agg ''categorySlugs'' (''_count'', Desc)) \<in> set (aggs rq))"
proof -
  note f = requestBody_fields [OF assms]
  have q: "filter_clauses (query_rq rq) = queryBoolFilters options"
    by (simp add: f filter_clauses_queryNode)
  show ?thesis
    unfolding q f(2)
    by (auto simp: queryBoolFilters_def aggBrandId_def aggCategory_def aggColorSwatch_def)
qed

theorem brand_and_category_pins_witness:
  "(\<exists>rq. requestBody (no_options \<lparr> brandId := Some ''bally'' \<rparr>) [] = Inr rq
       \<and> Term ''annotatedBrand'' ''bally'' \<in> set (filter_clauses (query_rq rq))
       \<and> ''brands'' \<notin> fst ` set (aggs rq)
       \<and> (''categorySlugs'', Terms_agg ''categorySlugs'' (''_count'', Desc)) \<in> set (aggs rq))
   \<and> (\<exists>rq. requestBody
              (no_options \<lparr> brands := Some [''bally'', ''gucci''], category := Some ''bags'' \<rparr>) [] = Inr rq
       \<and> Terms ''annotatedBrand'' [''bally'', ''gucci''] \<in> set (filter_clauses (query_rq rq))
       \<and> (''brands'', Terms_agg ''annotatedBrand'' (''_count'', Desc)) \<in> set (aggs rq)
       \<and> Term ''categorySlugs'' ''bags'' \<in> set (filter_clauses (query_rq rq))
       \<and> ''categorySlugs'' \<notin> fst ` set (aggs rq))"
proof -
  let ?o1 = "no_options \<lparr> brandId := Some ''bally'' \<rparr>"
  let ?o2 = "no_options \<lparr> brands := Some [''bally'', ''gucci''], category := Some ''bags'' \<rparr>"
  let ?r1 = "\<lparr> size_rq = size_opt ?o1, query_rq = queryNode ?o1,
           suggest_rq = (if suggestProducts ?o1 \<noteq> [] then Some (suggestProducts ?o1) else None),
           sort_rq = [(''_score'', Desc), (''id'', Asc)],
           aggs = aggBrandId ?o1
                    @ [(''priceMax'', Max_agg ''priceMax''), (''priceMin'', Min_agg ''priceMin'')]
                    @ aggCategory ?o1 @ aggColorSwatch [],
           search_after = None \<rparr>"
  let ?r2 = "\<lparr> size_rq = size_opt ?o2, query_rq = queryNode ?o2,
           suggest_rq = (if suggestProducts ?o2 \<noteq> [] then Some (suggestProducts ?o2) else None),
           sort_rq = [(''_score'', Desc), (''id'', Asc)],
           aggs = aggBrandId ?o2
                    @ [(''priceMax'', Max_agg ''priceMax''), (''priceMin'', Min_agg ''priceMin'')]
                    @ aggCategory ?o2 @ aggColorSwatch [],
           search_after = None \<rparr>"
  have r1: "requestBody ?o1 [] = Inr ?r1"
    by (rule requestBody_no_options) (simp_all add: no_options_def)
  have r2: "requestBody ?o2 [] = Inr ?r2"
    by (rule requestBody_no_options) (simp_all add: no_options_def)
  have w1: "Term ''annotatedBrand'' ''bally'' \<in> set (filter_clauses (query_rq ?r1))
       \<and> ''brands'' \<notin> fst ` set (aggs ?r1)
       \<and> (''categorySlugs'', Terms_agg ''categorySlugs'' (''_count'', Desc)) \<in> set (aggs ?r1)"
    using brand_and_category_pins [OF r1, of "''bally''" "[]" "[]"]
    by (simp add: no_options_def)
  have w2: "Terms ''annotatedBrand'' [''bally'', ''gucci''] \<in> set (filter_clauses (query_rq ?r2))
       \<and> (''brands'', Terms_agg ''annotatedBrand'' (''_count'', Desc)) \<in> set (aggs ?r2)
       \<and> Term ''categorySlugs'' ''bags'' \<in> set (filter_clauses (query_rq ?r2))
       \<and> ''categorySlugs'' \<notin> fst ` set (aggs ?r2)"
    using brand_and_category_pins [OF r2, of "[]" "[''bally'', ''gucci'']" "''bags''"]
    by (simp add: no_options_def)
  show ?thesis
    using r1 r2 w1 w2 by blast
qed

section \<open>The price range\<close>

text \<open>
  The guard of the price range is \<open>if (options.minPrice || options.maxPrice)\<close>. When a
  bound is truthy (given and not 0) the range constraints of the compiled query's \<open>must\<close>
  section are exactly two, both on \<open>actualMinPrice\<close>: one with the lower bound
  \<open>gte: minPrice\<close> and one with the upper bound \<open>lte: maxPrice\<close>, the other bound being written
  as it is given (absent, or 0). When neither bound is given there is no range constraint.
\<close>

lemma price_range_when_truthy:
  assumes "requestBody options slugs = Inr rq"
  shows "(truthy_num (minPrice options) \<or> truthy_num (maxPrice options) \<longrightarrow>
            filter is_range (must_clauses (query_rq rq)) =
              [Range_q ''actualMinPrice'' (Gte (minPrice options)),
               Range_q ''actualMinPrice'' (Lte (maxPrice options))])
       \<and> (minPrice options = None \<and> maxPrice options = None \<longrightarrow>
            filter is_range (must_clauses (query_rq rq)) = [])"
proof -
  have "must_clauses (query_rq rq) = queryMust options"
    using requestBody_fields(1) [OF assms] by (simp add: must_clauses_queryNode)
  then show ?thesis
    by (simp add: queryMust_def)
qed

text \<open>
  C4, at \<open>maxPrice = 0\<close> alone. A bound of 0 is a bound that is given, so the compiled query
  is to hold the constraint \<open>lte: 0\<close>. The guard reads 0 as no bound, so the compiled query
  has no range constraint at all: it is the match-everything query, and products of every
  price are returned where none above 0 was asked for. The same holds for \<open>minPrice = 0\<close>
  alone and for both bounds 0. That the code means a bound of 0 to be written shows inside
  the guard: with \<open>minPrice = 5\<close> and \<open>maxPrice = 0\<close> the upper bound \<open>lte: 0\<close> is there.
\<close>

theorem zero_price_bound_is_dropped:
  "requestBody (no_options \<lparr> maxPrice := Some 0 \<rparr>) [] =
       Inr \<lparr> size_rq = 24, query_rq = Query_string ''*'', suggest_rq = None,
             sort_rq = [(''_score'', Desc), (''id'', Asc)],
             aggs = [(''brands'', Terms_agg ''annotatedBrand'' (''_count'', Desc)),
                     (''priceMax'', Max_agg ''priceMax''), (''priceMin'', Min_agg ''priceMin''),
                     (''categorySlugs'', Terms_agg ''categorySlugs'' (''_count'', Desc))],
             search_after = None \<rparr>
   \<and> queryMust (no_options \<lparr> maxPrice := Some 0 \<rparr>) = []
   \<and> queryMust (no_options \<lparr> minPrice := Some 0 \<rparr>) = []
   \<and> queryMust (no_options \<lparr> minPrice := Some 0, maxPrice := Some 0 \<rparr>) = []
   \<and> queryMust (no_options \<lparr> minPrice := Some 5, maxPrice := Some 0 \<rparr>) =
       [Range_q ''actualMinPrice'' (Gte (Some 5)), Range_q ''actualMinPrice'' (Lte (Some 0))]"
  by (simp add: no_options_def requestBody_def sortNode_def queryNode_def queryShould_def
      queryMust_def queryBoolFilters_def suggestProducts_def aggBrandId_def aggCategory_def
      aggColorSwatch_def Let_def)
section \<open>The sort aliases\<close>

lemma test_i_name:
  "\<not> test_i ''createdAt'' ''name''" "\<not> test_i ''price'' ''name''"
  "\<not> test_i ''discountPercent'' ''name''" "\<not> test_i ''id'' ''name''"
  by (simp_all add: toLowerCase_def lower_char_def)

text \<open>
  A token that holds \<open>price\<close> in any letter case, and not \<open>createdAt\<close>, sorts by
  \<open>actualMinPrice\<close>, between the relevance score and the \<open>id\<close> tiebreak.
\<close>

lemma sort_alias_price:
  "test_i ''price'' s \<Longrightarrow> \<not> test_i ''createdAt'' s \<Longrightarrow> sortBy options = Some s \<Longrightarrow>
   sortNode options = Inr [(''_score'', Desc), (''actualMinPrice'', sortDir s), (''id'', Asc)]"
  by (cases s) (auto simp: sortNode_def sort_alias_def)

text \<open>
  C5, at the sort token \<open>name\<close>, which matches no alias. The bad-request error the alias
  table throws is thrown inside the \<open>try\<close> block of \<open>listProducts\<close>, whose \<open>catch\<close> turns
  every error into a bad-gateway server error: the caller gets a server error, with the
  message that names the token as its data, whatever the engine would answer.
\<close>

theorem unknown_sort_token_is_server_error:
  "listProducts search deserialize (no_options \<lparr> sortBy := Some ''name'' \<rparr>) slugs =
     Inl (FromServer BadGateway ''ElasticSearch encountered an error''
            (Some ''Unknown sort by option: name''))"
  by (simp del: test_i.simps
      add: listProducts_def listProducts_try_def requestBody_def sortNode_def sort_alias_def
      test_i_name no_options_def throwElasticSearchError_def normalizeESErrorMessage_def)

section \<open>The total\<close>

lemma listProducts_no_hit:
  "listProducts (\<lambda>index rq. Inr (no_hit_response t None)) (\<lambda>src. src) no_options [] =
     Inr \<lparr> items = [], nextToken_out = None, total_out = project_total t 0,
           filterableAttributes =
             \<lparr> fa_brands = [], fa_categories = [],
               price = \<lparr> priceMax = Some 999999, priceMin = Some 0 \<rparr>, colorSwatch = [] \<rparr>,
           suggestionProduct = [] \<rparr>"
  by (simp add: listProducts_def listProducts_try_def requestBody_no_options no_options_def
      no_hit_response_def project_facets_def project_suggestions_def Let_def)

text \<open>
  C6. For every response of a successful \<open>listProducts\<close> call: \<open>isEstimate\<close> is true if and
  only if the relation the engine reports is not \<open>eq\<close> (an absent relation is not \<open>eq\<close>); and
  the total's value is the value the engine reports when it is present, and the count of
  the returned items (the number of hits) otherwise. The value is computed as
  \<open>totals.value || items.length\<close>, so the second half is stated for the responses in which a
  reported total of 0 comes with no hit, as it does in every answer of the engine: there
  the count that stands in for the falsy 0 is 0 itself.
\<close>

theorem total_projection:
  assumes "listProducts search deserialize options slugs = Inr r"
  shows "\<exists>rq body. requestBody options slugs = Inr rq \<and> search PRODUCT_INDEX rq = Inr body
           \<and> isEstimate (total_out r) = (reported_relation body \<noteq> Some ''eq'')
           \<and> length (items r) = length (or_empty (hits_es body))
           \<and> ((reported_value body = Some 0 \<longrightarrow> or_empty (hits_es body) = []) \<longrightarrow>
                value_out (total_out r) =
                  (case reported_value body of
                     Some v \<Rightarrow> v
                   | None \<Rightarrow> int (length (items r))))"
proof -
  from listProducts_Inr [OF assms] obtain rq body where
    rq: "requestBody options slugs = Inr rq" and body: "search PRODUCT_INDEX rq = Inr body" and
    mh: "map_hits deserialize (size_opt options) (length (or_empty (hits_es body))) 0
                (or_empty (hits_es body)) None = Inr (items r, nextToken_out r)" and
    tot: "total_out r = project_total (total_es body) (length (items r))"
    by blast
  have len: "length (items r) = length (or_empty (hits_es body))"
    using map_hits_items [OF _ mh] by simp
  have est: "isEstimate (total_out r) = (reported_relation body \<noteq> Some ''eq'')"
    by (simp add: tot project_total_def reported_relation_def Let_def split: option.splits)
  have val: "value_out (total_out r) =
               (case reported_value body of
                  Some v \<Rightarrow> v
                | None \<Rightarrow> int (length (items r)))"
    if "reported_value body = Some 0 \<longrightarrow> or_empty (hits_es body) = []"
    using that len
    by (auto simp: tot project_total_def reported_value_def Let_def split: option.splits)
  show ?thesis using rq body len est val by blast
qed

theorem total_projection_witness:
  "(\<exists>r. listProducts
           (\<lambda>index rq. Inr (one_hit_response (Some \<lparr> value_es = Some 10000, relation = Some ''gte'' \<rparr>) None))
           (\<lambda>src. src) no_options [] = Inr r
        \<and> value_out (total_out r) = 10000 \<and> isEstimate (total_out r) = True)
   \<and> (\<exists>r. listProducts
           (\<lambda>index rq. Inr (no_hit_response (Some \<lparr> value_es = Some 0, relation = Some ''eq'' \<rparr>) None))
           (\<lambda>src. src) no_options [] = Inr r
        \<and> value_out (total_out r) = 0 \<and> isEstimate (total_out r) = False)
   \<and> (\<exists>r. listProducts (\<lambda>index rq. Inr (one_hit_response None None))
           (\<lambda>src. src) no_options [] = Inr r
        \<and> value_out (total_out r) = 1 \<and> isEstimate (total_out r) = True)"
proof (intro conjI)
  let ?t = "Some \<lparr> value_es = Some 10000, relation = Some ''gte'' \<rparr>"
  let ?search = "\<lambda>(index :: string) (rq :: search_request).
      (Inr (one_hit_response ?t None) :: js_error + (string, product_suggest) search_body)"
  obtain r where r: "listProducts ?search (\<lambda>src. src) no_options [] = Inr r"
    by (simp add: listProducts_one_hit project_suggestions_def)
  from total_projection [OF r]
  have "value_out (total_out r) = 10000 \<and> isEstimate (total_out r) = True"
    by (auto simp: reported_value_def reported_relation_def one_hit_response_def)
  then show "\<exists>r. listProducts ?search (\<lambda>src. src) no_options [] = Inr r
        \<and> value_out (total_out r) = 10000 \<and> isEstimate (total_out r) = True"
    using r by blast
next
  let ?t = "Some \<lparr> value_es = Some 0, relation = Some ''eq'' \<rparr>"
  let ?search = "\<lambda>(index :: string) (rq :: search_request).
      (Inr (no_hit_response ?t None) :: js_error + (string, product_suggest) search_body)"
  obtain r where r: "listProducts ?search (\<lambda>src. src) no_options [] = Inr r"
    by (simp add: listProducts_no_hit)
  from total_projection [OF r]
  have "value_out (total_out r) = 0 \<and> isEstimate (total_out r) = False"
    by (auto simp: reported_value_def reported_relation_def no_hit_response_def)
  then show "\<exists>r. listProducts ?search (\<lambda>src. src) no_options [] = Inr r
        \<and> value_out (total_out r) = 0 \<and> isEstimate (total_out r) = False"
    using r by blast
next
  let ?search = "\<lambda>(index :: string) (rq :: search_request).
      (Inr (one_hit_response None None) :: js_error + (string, product_suggest) search_body)"
  obtain r where r: "listProducts ?search (\<lambda>src. src) no_options [] = Inr r"
    by (simp add: listProducts_one_hit project_suggestions_def)
  from total_projection [OF r]
  have "value_out (total_out r) = 1 \<and> isEstimate (total_out r) = True"
    by (auto simp: reported_value_def reported_relation_def one_hit_response_def)
  then show "\<exists>r. listProducts ?search (\<lambda>src. src) no_options [] = Inr r
        \<and> value_out (total_out r) = 1 \<and> isEstimate (total_out r) = True"
    using r by blast
qed
section \<open>The suggestions\<close>



section \<open>The term tracker's errors\<close>

text \<open>
  C9. Whatever the engine's \<open>update\<close> does, \<open>trackUserSearchedKeywords\<close> resolves: a
  rejection is handed to \<open>_logElasticSearchError\<close> (which writes the error's \<open>meta\<close> to
  the console when it has one) and goes no further; the request it sends has
  \<open>retry_on_conflict = 3\<close>. \<open>updateDomainBoostedKeywords\<close> rejects with a bad-gateway
  server error whenever the engine's \<open>update\<close> rejects, and resolves when it resolves.
\<close>

theorem term_tracker_error_policy:
  "fst (trackUserSearchedKeywords md5 update' scope typed) = Inr ()
   \<and> retry_on_conflict (track_request md5 scope typed) = 3
   \<and> (update' (track_request md5 scope typed) = Inl e \<longrightarrow>
        snd (trackUserSearchedKeywords md5 update' scope typed) = logged e)
   \<and> (update' (boost_request md5 scope keyword' score') = Inl e \<longrightarrow>
        fst (updateDomainBoostedKeywords md5 update' scope keyword' score') =
          Inl (FromServer BadGateway ''ElasticSearch encountered an error''
                 (Some (normalizeESErrorMessage e))))
   \<and> (update' (boost_request md5 scope keyword' score') = Inr ok \<longrightarrow>
        fst (updateDomainBoostedKeywords md5 update' scope keyword' score') = Inr ())"
  by (auto simp: trackUserSearchedKeywords_def updateDomainBoostedKeywords_def track_request_def
      throwElasticSearchError_def Let_def split: sum.splits)

theorem term_tracker_error_policy_witness:
  "fst (trackUserSearchedKeywords (\<lambda>s. s)
          (\<lambda>rq. Inl (Error ''timeout'' (Some \<lparr> body_error = None \<rparr>)) :: js_error + unit)
          \<lparr> brandId = Some ''bally'', mallId = None, category = None \<rparr> ''Bag'') = Inr ()
   \<and> snd (trackUserSearchedKeywords (\<lambda>s. s)
          (\<lambda>rq. Inl (Error ''timeout'' (Some \<lparr> body_error = None \<rparr>)) :: js_error + unit)
          \<lparr> brandId = Some ''bally'', mallId = None, category = None \<rparr> ''Bag'')
       = [ES_ERR \<lparr> body_error = None \<rparr>]
   \<and> fst (updateDomainBoostedKeywords (\<lambda>s. s)
          (\<lambda>rq. Inl (Error ''timeout'' (Some \<lparr> body_error = None \<rparr>)) :: js_error + unit)
          \<lparr> brandId = Some ''bally'', mallId = None, category = None \<rparr> ''Bag'' 5)
       = Inl (FromServer BadGateway ''ElasticSearch encountered an error'' (Some ''timeout''))"
  using term_tracker_error_policy [of "\<lambda>s. s"
      "\<lambda>rq. Inl (Error ''timeout'' (Some \<lparr> body_error = None \<rparr>)) :: js_error + unit"
      "\<lparr> brandId = Some ''bally'', mallId = None, category = None \<rparr>" "''Bag''"
      "Error ''timeout'' (Some \<lparr> body_error = None \<rparr>)" "''Bag''" 5]
  by (simp add: logged_def normalizeESErrorMessage_def)

section \<open>The next cursor\<close>



section \<open>Splitting a bucket key\<close>

lemma split_dunder_part:
  "\<not> includes_dunder (p @ ''_'') \<Longrightarrow>
   split_dunder cur (p @ ''__'' @ rest) = (rev cur @ p) # split_dunder [] rest"
  by (induction p arbitrary: cur rule: includes_dunder.induct) auto

lemma split_dunder_last:
  "\<not> includes_dunder p \<Longrightarrow> split_dunder cur p = [rev cur @ p]"
  by (induction p arbitrary: cur rule: includes_dunder.induct) auto

lemma listProducts_color:
  "listProducts (\<lambda>index rq. Inr (color_response buckets)) (\<lambda>src. src) no_options [''colorSwatch''] =
     Inr \<lparr> items = [''p1''], nextToken_out = None,
           total_out = \<lparr> value_out = 1, isEstimate = True \<rparr>,
           filterableAttributes =
             \<lparr> fa_brands = [], fa_categories = [],
               price = \<lparr> priceMax = Some 900, priceMin = Some 100 \<rparr>,
               colorSwatch = map project_color (or_empty buckets) \<rparr>,
           suggestionProduct = [] \<rparr>"
  by (simp add: listProducts_def listProducts_try_def requestBody_no_options no_options_def
      color_response_def project_facets_def project_suggestions_def project_total_def Let_def)

text \<open>
  C8. The \<open>colorSwatch\<close> facet of the result of a successful \<open>listProducts\<close> call is the
  list of the projections of the buckets of the response's \<open>colorSwatch\<close> aggregation, one
  entry for each bucket and in their order (no entry when the response has no
  aggregations or the aggregation has no buckets); so is the facet that the projection of
  the aggregations gives. The projection of a bucket: a key made of three parts joined by
  \<open>__\<close> projects to the first part as the code and the second and third as the English and
  Thai labels. The parts are those the two separators delimit: no part holds a separator
  and neither of the first two ends in an underscore. A key with no separator at all
  projects to itself as the code with both labels blank (\<open>undefined\<close>), and a key with one
  separator has a blank Thai label; the projection is a total function, so no key makes it
  throw.
\<close>

theorem color_swatch_projection:
  "(\<not> includes_dunder (a @ ''_'') \<and> \<not> includes_dunder (b @ ''_'') \<and> \<not> includes_dunder c \<longrightarrow>
      project_color \<lparr> key = a @ ''__'' @ b @ ''__'' @ c, doc_count = n \<rparr>
        = \<lparr> code = Some a, label = \<lparr> en = Some b, th = Some c \<rparr> \<rparr>)
   \<and> (\<not> includes_dunder k \<longrightarrow>
      project_color \<lparr> key = k, doc_count = n \<rparr>
        = \<lparr> code = Some k, label = \<lparr> en = None, th = None \<rparr> \<rparr>)
   \<and> (\<not> includes_dunder (a @ ''_'') \<and> \<not> includes_dunder b \<longrightarrow>
      project_color \<lparr> key = a @ ''__'' @ b, doc_count = n \<rparr>
        = \<lparr> code = Some a, label = \<lparr> en = Some b, th = None \<rparr> \<rparr>)
   \<and> colorSwatch (project_facets (Some ag)) = map project_color (or_empty (colorSwatch_agg ag))
   \<and> colorSwatch (project_facets None) = []
   \<and> (listProducts search deserialize options slugs = Inr r \<longrightarrow>
        (\<exists>rq body. requestBody options slugs = Inr rq \<and> search PRODUCT_INDEX rq = Inr body
           \<and> colorSwatch (filterableAttributes r) =
               map project_color
                 (case aggregations body of
                    None \<Rightarrow> []
                  | Some ag' \<Rightarrow> or_empty (colorSwatch_agg ag'))))"
proof (intro conjI impI)
  assume h: "\<not> includes_dunder (a @ ''_'') \<and> \<not> includes_dunder (b @ ''_'') \<and> \<not> includes_dunder c"
  have "split_key (a @ ''__'' @ b @ ''__'' @ c) = [a, b, c]"
    using h split_dunder_part [of a "[]" "b @ ''__'' @ c"] split_dunder_part [of b "[]" c]
      split_dunder_last [of c "[]"]
    by (simp add: split_key_def)
  then show "project_color \<lparr> key = a @ ''__'' @ b @ ''__'' @ c, doc_count = n \<rparr>
        = \<lparr> code = Some a, label = \<lparr> en = Some b, th = Some c \<rparr> \<rparr>"
    by (simp add: project_color_def index_opt_def)
next
  assume "\<not> includes_dunder k"
  then have "split_key k = [k]"
    using split_dunder_last [of k "[]"] by (simp add: split_key_def)
  then show "project_color \<lparr> key = k, doc_count = n \<rparr>
        = \<lparr> code = Some k, label = \<lparr> en = None, th = None \<rparr> \<rparr>"
    by (simp add: project_color_def index_opt_def)
next
  assume h: "\<not> includes_dunder (a @ ''_'') \<and> \<not> includes_dunder b"
  have "split_key (a @ ''__'' @ b) = [a, b]"
    using h split_dunder_part [of a "[]" b] split_dunder_last [of b "[]"]
    by (simp add: split_key_def)
  then show "project_color \<lparr> key = a @ ''__'' @ b, doc_count = n \<rparr>
        = \<lparr> code = Some a, label = \<lparr> en = Some b, th = None \<rparr> \<rparr>"
    by (simp add: project_color_def index_opt_def)
next
  show "colorSwatch (project_facets (Some ag)) = map project_color (or_empty (colorSwatch_agg ag))"
    by (simp add: project_facets_def)
next
  show "colorSwatch (project_facets None) = []"
    by (simp add: project_facets_def)
next
  assume "listProducts search deserialize options slugs = Inr r"
  from listProducts_Inr [OF this] obtain rq body where
    rq: "requestBody options slugs = Inr rq" and body: "search PRODUCT_INDEX rq = Inr body" and
    fa: "filterableAttributes r = project_facets (aggregations body)"
    by blast
  have "colorSwatch (filterableAttributes r) =
          map project_color
            (case aggregations body of None \<Rightarrow> [] | Some ag' \<Rightarrow> or_empty (colorSwatch_agg ag'))"
    by (simp add: fa project_facets_def split: option.splits)
  then show "\<exists>rq body. requestBody options slugs = Inr rq \<and> search PRODUCT_INDEX rq = Inr body
           \<and> colorSwatch (filterableAttributes r) =
               map project_color
                 (case aggregations body of
                    None \<Rightarrow> []
                  | Some ag' \<Rightarrow> or_empty (colorSwatch_agg ag'))"
    using rq body by blast
qed

theorem color_swatch_projection_witness:
  "project_color \<lparr> key = ''red__Red__'' @ [CHR 0xE0, CHR 0xB9, CHR 0x81, CHR 0xE0, CHR 0xB8, CHR 0x94, CHR 0xE0, CHR 0xB8, CHR 0x87], doc_count = 7 \<rparr>
     = \<lparr> code = Some ''red'', label = \<lparr> en = Some ''Red'',
          th = Some [CHR 0xE0, CHR 0xB9, CHR 0x81, CHR 0xE0, CHR 0xB8, CHR 0x94, CHR 0xE0, CHR 0xB8, CHR 0x87] \<rparr> \<rparr>
   \<and> project_color \<lparr> key = ''red'', doc_count = 7 \<rparr>
     = \<lparr> code = Some ''red'', label = \<lparr> en = None, th = None \<rparr> \<rparr>
   \<and> project_color \<lparr> key = ''red__Red'', doc_count = 7 \<rparr>
     = \<lparr> code = Some ''red'', label = \<lparr> en = Some ''Red'', th = None \<rparr> \<rparr>
   \<and> (\<exists>r. listProducts
           (\<lambda>index rq. Inr (color_response
              (Some [\<lparr> key = ''red__Red__'' @ [CHR 0xE0, CHR 0xB9, CHR 0x81, CHR 0xE0, CHR 0xB8, CHR 0x94, CHR 0xE0, CHR 0xB8, CHR 0x87], doc_count = 7 \<rparr>,
                     \<lparr> key = ''red'', doc_count = 7 \<rparr>])))
           (\<lambda>src. src) no_options [''colorSwatch''] = Inr r
        \<and> colorSwatch (filterableAttributes r) =
            [\<lparr> code = Some ''red'', label = \<lparr> en = Some ''Red'',
                 th = Some [CHR 0xE0, CHR 0xB9, CHR 0x81, CHR 0xE0, CHR 0xB8, CHR 0x94, CHR 0xE0, CHR 0xB8, CHR 0x87] \<rparr> \<rparr>,
             \<lparr> code = Some ''red'', label = \<lparr> en = None, th = None \<rparr> \<rparr>])
   \<and> (\<exists>r. listProducts (\<lambda>index rq. Inr (one_hit_response None None)) (\<lambda>src. src) no_options [] = Inr r
        \<and> colorSwatch (filterableAttributes r) = [])"
proof -
  let ?th = "[CHR 0xE0, CHR 0xB9, CHR 0x81, CHR 0xE0, CHR 0xB8, CHR 0x94, CHR 0xE0, CHR 0xB8, CHR 0x87]"
  let ?b1 = "\<lparr> key = ''red__Red__'' @ ?th, doc_count = 7 \<rparr>"
  let ?b2 = "\<lparr> key = ''red'', doc_count = 7 \<rparr>"
  let ?color = "\<lambda>(index :: string) (rq :: search_request).
      (Inr (color_response (Some [?b1, ?b2])) :: js_error + (string, product_suggest) search_body)"
  let ?plain = "\<lambda>(index :: string) (rq :: search_request).
      (Inr (one_hit_response None None) :: js_error + (string, product_suggest) search_body)"
  obtain r1 where r1: "listProducts ?color (\<lambda>src. src) no_options [''colorSwatch''] = Inr r1"
    by (simp add: listProducts_color)
  obtain r2 where r2: "listProducts ?plain (\<lambda>src. src) no_options [] = Inr r2"
    by (simp add: listProducts_one_hit project_suggestions_def)
  note colour = color_swatch_projection [where a = "''red''" and b = "''Red''" and c = ?th
      and n = 7 and k = "''red''" and ag = "\<lparr> priceMin_agg = None, priceMax_agg = None,
        brands_agg = None, categorySlugs_agg = None, colorSwatch_agg = None \<rparr>"
      and search = ?color and deserialize = "\<lambda>src. src" and options = no_options
      and slugs = "[''colorSwatch'']" and r = r1]
  note plain = color_swatch_projection [where a = "''red''" and b = "''Red''" and c = ?th
      and n = 7 and k = "''red''" and ag = "\<lparr> priceMin_agg = None, priceMax_agg = None,
        brands_agg = None, categorySlugs_agg = None, colorSwatch_agg = None \<rparr>"
      and search = ?plain and deserialize = "\<lambda>src. src" and options = no_options
      and slugs = "[]" and r = r2]
  have 1: "project_color ?b1 = \<lparr> code = Some ''red'', label = \<lparr> en = Some ''Red'', th = Some ?th \<rparr> \<rparr>"
    using colour by simp
  have 2: "project_color ?b2 = \<lparr> code = Some ''red'', label = \<lparr> en = None, th = None \<rparr> \<rparr>"
    using colour by simp
  have 3: "project_color \<lparr> key = ''red__Red'', doc_count = 7 \<rparr>
      = \<lparr> code = Some ''red'', label = \<lparr> en = Some ''Red'', th = None \<rparr> \<rparr>"
    using colour by simp
  have "colorSwatch (filterableAttributes r1) = map project_color [?b1, ?b2]"
    using colour r1 by (auto simp: color_response_def)
  then have 4: "colorSwatch (filterableAttributes r1) =
      [\<lparr> code = Some ''red'', label = \<lparr> en = Some ''Red'', th = Some ?th \<rparr> \<rparr>,
       \<lparr> code = Some ''red'', label = \<lparr> en = None, th = None \<rparr> \<rparr>]"
    using 1 2 by simp
  have 5: "colorSwatch (filterableAttributes r2) = []"
    using plain r2 by (auto simp: one_hit_response_def)
  show ?thesis
    using 1 2 3 4 5 r1 r2 by blast
qed
section \<open>The page size of \<open>listBrands\<close>\<close>

text \<open>
  C10. The request \<open>listBrands\<close> sends always asks for 24 hits, whatever the options
  say, while the cursor is computed against \<open>options.size\<close>: in every successful call,
  \<open>nextToken\<close> is \<open>null\<close> when the number of hits differs from \<open>options.size\<close>, so a full
  page of 24 hits has no cursor when \<open>options.size\<close> is not 24; and a page with exactly
  \<open>options.size\<close> hits (a positive number by the data model's invariant on the options),
  short of 24 or not, has the cursor of its last hit.
\<close>

theorem brands_page_size:
  "(brandsRequestBody options = Inr rq' \<longrightarrow> b_size rq' = 24)
       \<and> (listBrands search find_brands options = Inr r \<longrightarrow>
            (\<exists>rq body. brandsRequestBody options = Inr rq \<and> search rq = Inr body \<and> b_size rq = 24
               \<and> (length (or_empty (hits_es body)) = 24 \<and> size_opt options \<noteq> 24 \<longrightarrow>
                    b_nextToken r = None)
               \<and> (0 < size_opt options \<and> int (length (or_empty (hits_es body))) = size_opt options \<longrightarrow>
                    (\<exists>t. sort_es (last (or_empty (hits_es body))) = Some t
                       \<and> b_nextToken r = Some (cursor_encode t)))
               \<and> (int (length (or_empty (hits_es body))) \<noteq> size_opt options \<longrightarrow>
                    b_nextToken r = None)))"
proof (intro conjI impI)
  assume "brandsRequestBody options = Inr rq'"
  then show "b_size rq' = 24" by (rule brandsRequestBody_size)
next
  assume "listBrands search find_brands options = Inr r"
  from listBrands_Inr [OF this] obtain rq body where
    rq: "brandsRequestBody options = Inr rq" and body: "search rq = Inr body" and
    mh: "map_hits (\<lambda>src. src) (size_opt options) (length (or_empty (hits_es body))) 0
                (or_empty (hits_es body)) None = Inr (b_items r, b_nextToken r)"
    by blast
  let ?hits = "or_empty (hits_es body)"
  have other: "b_nextToken r = None" if "int (length ?hits) \<noteq> size_opt options"
    using mh that by (simp add: map_hits_eq)
  have full: "\<exists>t. sort_es (last ?hits) = Some t \<and> b_nextToken r = Some (cursor_encode t)"
    if "0 < size_opt options \<and> int (length ?hits) = size_opt options"
  proof -
    have ne: "?hits \<noteq> []" using that by auto
    show ?thesis
      using mh that ne by (auto simp: map_hits_eq or_null_cursor split: option.splits)
  qed
  have page: "b_nextToken r = None" if "length ?hits = 24 \<and> size_opt options \<noteq> 24"
    using other that by simp
  show "\<exists>rq body. brandsRequestBody options = Inr rq \<and> search rq = Inr body \<and> b_size rq = 24
               \<and> (length (or_empty (hits_es body)) = 24 \<and> size_opt options \<noteq> 24 \<longrightarrow>
                    b_nextToken r = None)
               \<and> (0 < size_opt options \<and> int (length (or_empty (hits_es body))) = size_opt options \<longrightarrow>
                    (\<exists>t. sort_es (last (or_empty (hits_es body))) = Some t
                       \<and> b_nextToken r = Some (cursor_encode t)))
               \<and> (int (length (or_empty (hits_es body))) \<noteq> size_opt options \<longrightarrow>
                    b_nextToken r = None)"
    using rq body brandsRequestBody_size [OF rq] other full page by blast
qed

theorem brands_page_size_witness:
  "listBrands
     (\<lambda>rq. Inr \<lparr> hits_es = Some (replicate 24 \<lparr> sort_es = Some [SNum 1 0, SStr ''p1''], source = ''b1'' \<rparr>),
                  total_es = None, aggregations = None, suggest = (None :: brand_suggest option) \<rparr>)
     (\<lambda>ids. Inr ([] :: string list)) (no_options \<lparr> size_opt := 10 \<rparr>) =
   Inr \<lparr> b_items = replicate 24 ''b1'', b_nextToken = None,
         b_total = \<lparr> value_out = 24, isEstimate = True \<rparr>, suggestionBrand = [] \<rparr>
   \<and> listBrands
     (\<lambda>rq. Inr \<lparr> hits_es = Some [\<lparr> sort_es = Some [SNum 1 0, SStr ''p1''], source = ''b1'' \<rparr>],
                  total_es = None, aggregations = None, suggest = (None :: brand_suggest option) \<rparr>)
     (\<lambda>ids. Inr ([] :: string list)) (no_options \<lparr> size_opt := 1 \<rparr>) =
   Inr \<lparr> b_items = [''b1''], b_nextToken = Some ''WzEsInAxIl0='',
         b_total = \<lparr> value_out = 1, isEstimate = True \<rparr>, suggestionBrand = [] \<rparr>"
proof -
  let ?h = "\<lparr> sort_es = Some [SNum 1 0, SStr ''p1''], source = ''b1'' \<rparr>"
  let ?full = "\<lambda>rq :: brand_request. (Inr \<lparr> hits_es = Some (replicate 24 ?h),
                  total_es = None, aggregations = None, suggest = (None :: brand_suggest option) \<rparr>
                :: js_error + (string, brand_suggest) search_body)"
  let ?one = "\<lambda>rq :: brand_request. (Inr \<lparr> hits_es = Some [?h],
                  total_es = None, aggregations = None, suggest = (None :: brand_suggest option) \<rparr>
                :: js_error + (string, brand_suggest) search_body)"
  let ?find = "\<lambda>ids :: string list. (Inr [] :: js_error + string list)"
  let ?o10 = "no_options \<lparr> size_opt := 10 \<rparr>"
  let ?o1 = "no_options \<lparr> size_opt := 1 \<rparr>"
  have last24: "last (replicate 24 ?h) = ?h" by simp
  have r10: "listBrands ?full ?find ?o10 =
      Inr \<lparr> b_items = replicate 24 ''b1'', b_nextToken = None,
         b_total = project_total None 24, suggestionBrand = [] \<rparr>"
    using listBrands_page [of ?o10 "replicate 24 ?h" "[SNum 1 0, SStr ''p1'']"]
    by (simp add: no_options_def)
  have r1: "listBrands ?one ?find ?o1 =
      Inr \<lparr> b_items = [''b1''], b_nextToken = Some (cursor_encode [SNum 1 0, SStr ''p1'']),
         b_total = project_total None 1, suggestionBrand = [] \<rparr>"
    using listBrands_page [of ?o1 "[?h]" "[SNum 1 0, SStr ''p1'']"]
    by (simp add: no_options_def)
  have s10: "0 < size_opt ?o10" and s1: "0 < size_opt ?o1" by (simp_all add: no_options_def)
  note w10 = brands_page_size [THEN conjunct2, rule_format, OF r10]
  note w1 = brands_page_size [THEN conjunct2, rule_format, OF r1]
  have "b_nextToken \<lparr> b_items = replicate 24 ''b1'', b_nextToken = None,
         b_total = project_total None 24, suggestionBrand = ([] :: string list) \<rparr> = None"
    using w10 by simp
  moreover have "b_nextToken \<lparr> b_items = [''b1''], b_nextToken = Some (cursor_encode [SNum 1 0, SStr ''p1'']),
         b_total = project_total None 1, suggestionBrand = ([] :: string list) \<rparr> = Some ''WzEsInAxIl0=''"
    using w1 s1 by (simp add: example_token)
  ultimately show ?thesis
    using r10 r1 by (simp add: project_total_def example_token)
qed

section \<open>The cursor codec\<close>

text \<open>
  C3, as the code has it, at four tokens that are not the encoding of a sort-key tuple.
  No token makes \<open>listProducts\<close> raise a client input error.

    \<^item> \<open>e3s=\<close> is the base64 of \<open>{{\<close>, which is not JSON: \<open>JSON.parse\<close> throws inside the
      \<open>try\<close> block and the \<open>catch\<close> block turns the error into a bad-gateway server error
      (the data is the runtime's message, for which \<open>SyntaxError\<close> stands).

    \<^item> \<open>W!zEsInAxIl0=\<close> is not base64 (\<open>!\<close> is outside the alphabet):
      \<open>Buffer.from(s, 'base64')\<close> skips the character, the token decodes to \<open>[1,"p1"]\<close>,
      which the engine receives as \<open>search_after\<close>, and the call succeeds.

    \<^item> \<open>e30=\<close> is the base64 of \<open>{}\<close>, JSON that is not a tuple: the engine receives the
      empty object as \<open>search_after\<close> and the call succeeds when the engine answers.

    \<^item> The empty token is falsy: the request has no \<open>search_after\<close>, it is the request for
      the first page.
\<close>

theorem malformed_cursor_counterexample:
  "listProducts (\<lambda>index rq. Inr (one_hit_response None None)) (\<lambda>src. src)
       (no_options \<lparr> nextToken := Some ''e3s='' \<rparr>) [] =
     Inl (FromServer BadGateway ''ElasticSearch encountered an error'' (Some ''SyntaxError''))
   \<and> listProducts (answers_cursor (Some (JArr [JNum 1, JStr ''p1'']))) (\<lambda>src. src)
       (no_options \<lparr> nextToken := Some ''W!zEsInAxIl0='' \<rparr>) [] = Inr one_hit_result
   \<and> listProducts (answers_cursor (Some (JObj []))) (\<lambda>src. src)
       (no_options \<lparr> nextToken := Some ''e30='' \<rparr>) [] = Inr one_hit_result
   \<and> listProducts (answers_cursor None) (\<lambda>src. src)
       (no_options \<lparr> nextToken := Some '''' \<rparr>) [] = Inr one_hit_result"
proof (intro conjI)
  show "listProducts (\<lambda>index rq. Inr (one_hit_response None None)) (\<lambda>src. src)
       (no_options \<lparr> nextToken := Some ''e3s='' \<rparr>) [] =
     Inl (FromServer BadGateway ''ElasticSearch encountered an error'' (Some ''SyntaxError''))"
    by (simp add: listProducts_def listProducts_try_def requestBody_def sortNode_def
        no_options_def bad_token throwElasticSearchError_def normalizeESErrorMessage_def
        syntax_error_def Let_def)
next
  show "listProducts (answers_cursor (Some (JArr [JNum 1, JStr ''p1'']))) (\<lambda>src. src)
       (no_options \<lparr> nextToken := Some ''W!zEsInAxIl0='' \<rparr>) [] = Inr one_hit_result"
    by (rule answers_cursor_call [where token = "''W!zEsInAxIl0=''"])
      (simp_all add: no_options_def sortNode_def stray_character_token)
next
  show "listProducts (answers_cursor (Some (JObj []))) (\<lambda>src. src)
       (no_options \<lparr> nextToken := Some ''e30='' \<rparr>) [] = Inr one_hit_result"
    by (rule answers_cursor_call [where token = "''e30=''"])
      (simp_all add: no_options_def sortNode_def object_token)
next
  show "listProducts (answers_cursor None) (\<lambda>src. src)
       (no_options \<lparr> nextToken := Some '''' \<rparr>) [] = Inr one_hit_result"
    by (simp add: listProducts_def listProducts_try_def requestBody_def sortNode_def
        no_options_def answers_cursor_def one_hit_response_def one_hit_result_def
        project_facets_def project_suggestions_def project_total_def Let_def)
qed

text \<open>
  C3, amended. A sort key is \<open>null\<close>, a boolean, a number (given by the decimal
  \<open>m \<times> 10\<^sup>e\<close> that the runtime prints for it) or a string. For every tuple of
  sort keys, decoding the token that encodes it (the base64 of its JSON text) gives the
  tuple back, and \<open>listProducts\<close> passes the decoded tuple to the engine as \<open>search_after\<close>.
  For a token supplied as \<open>nextToken\<close>:

    \<^item> a non-empty token whose base64 decoding is not JSON text makes \<open>listProducts\<close> fail
      with a bad-gateway server error, whatever the other options are (base64 decoding
      itself never fails: it skips what is not a base64 letter and stops at the padding);

    \<^item> every other non-empty token is accepted: the JSON value it decodes to, of whatever
      structure, is the request's \<open>search_after\<close>;

    \<^item> the empty token is read as no token: the request is that of the first page.
\<close>

theorem cursor_codec:
  "cursor_decode (cursor_encode t) = Some (JArr (map json_of_sort_value t))
   \<and> (sortBy options = None \<and> nextToken options = Some (cursor_encode t) \<longrightarrow>
        (\<exists>rq. requestBody options slugs = Inr rq
           \<and> search_after rq = Some (JArr (map json_of_sort_value t))))
   \<and> (nextToken options = Some token \<and> token \<noteq> [] \<and> cursor_decode token = None \<longrightarrow>
        (\<exists>d. listProducts search deserialize options slugs =
           Inl (FromServer BadGateway ''ElasticSearch encountered an error'' d)))
   \<and> (nextToken options = Some token \<and> token \<noteq> [] \<and> cursor_decode token = Some j
        \<and> sortNode options = Inr s \<longrightarrow>
        (\<exists>rq. requestBody options slugs = Inr rq \<and> search_after rq = Some j))
   \<and> (nextToken options = Some [] \<and> sortNode options = Inr s \<longrightarrow>
        requestBody options slugs = requestBody (options \<lparr> nextToken := None \<rparr>) slugs
        \<and> (\<exists>rq. requestBody options slugs = Inr rq \<and> search_after rq = None))"
proof (intro conjI impI)
  show "cursor_decode (cursor_encode t) = Some (JArr (map json_of_sort_value t))"
    by (rule cursor_roundtrip)
next
  assume "sortBy options = None \<and> nextToken options = Some (cursor_encode t)"
  then show "\<exists>rq. requestBody options slugs = Inr rq
           \<and> search_after rq = Some (JArr (map json_of_sort_value t))"
    by (simp add: requestBody_def sortNode_def cursor_roundtrip cursor_encode_nonempty Let_def)
next
  assume a: "nextToken options = Some token \<and> token \<noteq> [] \<and> cursor_decode token = None"
  have "\<exists>e. requestBody options slugs = Inl e"
    using a by (auto simp: requestBody_def Let_def split: sum.splits)
  then obtain e where "listProducts_try search deserialize options slugs = Inl e"
    by (auto simp: listProducts_try_def)
  from listProducts_throws [OF this]
  show "\<exists>d. listProducts search deserialize options slugs =
           Inl (FromServer BadGateway ''ElasticSearch encountered an error'' d)"
    by blast
next
  assume a: "nextToken options = Some token \<and> token \<noteq> [] \<and> cursor_decode token = Some j
        \<and> sortNode options = Inr s"
  then show "\<exists>rq. requestBody options slugs = Inr rq \<and> search_after rq = Some j"
    using requestBody_cursor [of options s token j slugs] by simp
next
  assume "nextToken options = Some [] \<and> sortNode options = Inr s"
  then show "requestBody options slugs = requestBody (options \<lparr> nextToken := None \<rparr>) slugs"
    by (simp add: requestBody_empty_token)
next
  assume "nextToken options = Some [] \<and> sortNode options = Inr s"
  then show "\<exists>rq. requestBody options slugs = Inr rq \<and> search_after rq = None"
    by (simp add: requestBody_def Let_def)
qed

theorem cursor_codec_witness:
  "cursor_decode ''WzEuNSwic2t1LTciLG51bGwsdHJ1ZV0='' =
     Some (JArr [JNum (3 / 2), JStr ''sku-7'', JNull, JBool True])
   \<and> (\<exists>rq. requestBody (no_options \<lparr> nextToken := Some ''WzEuNSwic2t1LTciLG51bGwsdHJ1ZV0='' \<rparr>) [] = Inr rq
         \<and> search_after rq = Some (JArr [JNum (3 / 2), JStr ''sku-7'', JNull, JBool True]))
   \<and> (\<exists>d. listProducts (\<lambda>index rq. Inr (one_hit_response None None)) (\<lambda>src. src)
              (no_options \<lparr> nextToken := Some ''e3s='' \<rparr>) [] =
           Inl (FromServer BadGateway ''ElasticSearch encountered an error'' d))
   \<and> (\<exists>rq. requestBody (no_options \<lparr> nextToken := Some ([CHR 0xC5, CHR 0x97] @ ''zEsInAxIl0='') \<rparr>) [] = Inr rq
         \<and> search_after rq = Some (JArr [JNum 1, JStr ''p1'']))
   \<and> requestBody (no_options \<lparr> nextToken := Some [] \<rparr>) [] = requestBody no_options []
   \<and> (\<exists>rq. requestBody (no_options \<lparr> nextToken := Some [] \<rparr>) [] = Inr rq \<and> search_after rq = None)"
proof -
  let ?t = "[SNum 15 (- 1), SStr ''sku-7'', SNull, SBool True]"
  let ?wide = "[CHR 0xC5, CHR 0x97] @ ''zEsInAxIl0=''"
  let ?good = "no_options \<lparr> nextToken := Some ''WzEuNSwic2t1LTciLG51bGwsdHJ1ZV0='' \<rparr>"
  let ?bad = "no_options \<lparr> nextToken := Some ''e3s='' \<rparr>"
  let ?odd = "no_options \<lparr> nextToken := Some ?wide \<rparr>"
  let ?empty = "no_options \<lparr> nextToken := Some [] \<rparr>"
  let ?search = "\<lambda>(index :: string) (rq :: search_request).
      (Inr (one_hit_response None None) :: js_error + (string, product_suggest) search_body)"
  let ?j = "JArr [JNum 1, JStr ''p1'']"
  let ?s = "[(''_score'', Desc), (''id'', Asc)]"
  note good = cursor_codec [where t = ?t and options = ?good and slugs = "[]" and token = "''e3s=''"
      and search = ?search and deserialize = "\<lambda>src. src" and j = ?j and s = ?s]
  note bad = cursor_codec [where t = ?t and options = ?bad and slugs = "[]" and token = "''e3s=''"
      and search = ?search and deserialize = "\<lambda>src. src" and j = ?j and s = ?s]
  note odd = cursor_codec [where t = ?t and options = ?odd and slugs = "[]" and token = ?wide
      and search = ?search and deserialize = "\<lambda>src. src" and j = ?j and s = ?s]
  note empty = cursor_codec [where t = ?t and options = ?empty and slugs = "[]" and token = "''e3s=''"
      and search = ?search and deserialize = "\<lambda>src. src" and j = ?j and s = ?s]
  have 1: "cursor_decode ''WzEuNSwic2t1LTciLG51bGwsdHJ1ZV0='' =
     Some (JArr [JNum (3 / 2), JStr ''sku-7'', JNull, JBool True])"
    using good by (simp add: example_token_3)
  have 2: "\<exists>rq. requestBody ?good [] = Inr rq
         \<and> search_after rq = Some (JArr [JNum (3 / 2), JStr ''sku-7'', JNull, JBool True])"
    using good by (simp add: example_token_3 no_options_def)
  have 3: "\<exists>d. listProducts ?search (\<lambda>src. src) ?bad [] =
           Inl (FromServer BadGateway ''ElasticSearch encountered an error'' d)"
    using bad by (simp add: bad_token no_options_def)
  have 4: "\<exists>rq. requestBody ?odd [] = Inr rq \<and> search_after rq = Some ?j"
    using odd wide_character_token by (simp add: no_options_def sortNode_def)
  have e: "nextToken ?empty = Some [] \<and> sortNode ?empty = Inr ?s"
    by (simp add: no_options_def sortNode_def)
  have upd: "?empty \<lparr> nextToken := None \<rparr> = no_options"
    by (simp add: no_options_def)
  from empty e have "requestBody ?empty [] = requestBody (?empty \<lparr> nextToken := None \<rparr>) []
      \<and> (\<exists>rq. requestBody ?empty [] = Inr rq \<and> search_after rq = None)"
    by blast
  then have 5: "requestBody ?empty [] = requestBody no_options []
      \<and> (\<exists>rq. requestBody ?empty [] = Inr rq \<and> search_after rq = None)"
    unfolding upd .
  show ?thesis using 1 2 3 4 5 by blast
qed
end
